theory Spec2Isabelle
  imports
    Main
    "HOL-Library.Multiset"
    "HOL-Library.Char_ord"
    "HOL-Library.List_Lexorder"
begin

section \<open>Dates as the scheduling dialogs read them\<close>

text \<open>
  A valid JavaScript \<^verbatim>\<open>Date\<close>, seen through its local-time getters. The dialogs only
  ever read these components (\<^verbatim>\<open>getFullYear\<close>, \<^verbatim>\<open>getMonth\<close>, \<^verbatim>\<open>getDate\<close>,
  \<^verbatim>\<open>getHours\<close>, \<^verbatim>\<open>getMinutes\<close>) or compare two instants, so a date is the record of
  its components; \<^verbatim>\<open>getMonth\<close> is 0-based as in JavaScript.
\<close>

record Date =
  getFullYear :: int
  getMonth :: nat
  getDate :: nat
  getHours :: nat
  getMinutes :: nat
  getSeconds :: nat
  getMilliseconds :: nat

text \<open>A \<^verbatim>\<open>Date\<close>-typed variable at run time: \<^verbatim>\<open>null\<close>, an Invalid Date, or a valid one.\<close>

datatype DateValue = Null | InvalidDate | ValidDate Date

text \<open>date-fns \<^verbatim>\<open>isSameDay\<close> / \<^verbatim>\<open>isToday\<close>: the same local calendar day as \<open>now\<close>.\<close>

definition isSameDay :: "Date \<Rightarrow> Date \<Rightarrow> bool" where
  "isSameDay a b \<longleftrightarrow>
     getFullYear a = getFullYear b \<and> getMonth a = getMonth b \<and> getDate a = getDate b"

definition isToday :: "Date \<Rightarrow> Date \<Rightarrow> bool" where
  "isToday now d \<longleftrightarrow> isSameDay d now"

text \<open>
  The calendar day of \<open>a\<close> lies strictly before the calendar day of \<open>b\<close>.
\<close>

definition dayBefore :: "Date \<Rightarrow> Date \<Rightarrow> bool" where
  "dayBefore a b \<longleftrightarrow>
     getFullYear a < getFullYear b
     \<or> (getFullYear a = getFullYear b
        \<and> (getMonth a < getMonth b \<or> (getMonth a = getMonth b \<and> getDate a < getDate b)))"

text \<open>Minutes since local midnight, used to compare times of day.\<close>

definition minuteOfDay :: "Date \<Rightarrow> nat" where
  "minuteOfDay d = getHours d * 60 + getMinutes d"

definition milliOfDay :: "Date \<Rightarrow> nat" where
  "milliOfDay d = (minuteOfDay d * 60 + getSeconds d) * 1000 + getMilliseconds d"

text \<open>
  date-fns \<^verbatim>\<open>isBefore(a, b)\<close>: the instant \<open>a\<close> is strictly earlier than \<open>b\<close>. On normalised
  local components this is the lexicographic order of day, then time within the day.
\<close>

definition isBefore :: "Date \<Rightarrow> Date \<Rightarrow> bool" where
  "isBefore a b \<longleftrightarrow> dayBefore a b \<or> (isSameDay a b \<and> milliOfDay a < milliOfDay b)"

text \<open>
  \<^verbatim>\<open>d.setHours(h, m, s, ms)\<close> on a copy of \<open>d\<close>. Every call in the slot generators passes
  an hour below 17 and a minute of 0 or 30, so no component overflows into the next one.
\<close>

definition setHours :: "Date \<Rightarrow> nat \<Rightarrow> nat \<Rightarrow> nat \<Rightarrow> nat \<Rightarrow> Date" where
  "setHours d h m s ms =
     d\<lparr>getHours := h, getMinutes := m, getSeconds := s, getMilliseconds := ms\<rparr>"

section \<open>Slot generator\<close>

text \<open>
  \<^verbatim>\<open>generateTimeSlots\<close> of the appointment scheduler. The ambient \<^verbatim>\<open>new Date()\<close> is the
  parameter \<open>now\<close>. The two nested \<^verbatim>\<open>for\<close> loops run over the hours
  \<open>startHour, \<dots>, endHour - 1\<close> and the minutes \<open>0, 30\<close>; \<^verbatim>\<open>continue\<close> contributes no slot.
\<close>

definition AppointmentScheduler_generateTimeSlots :: "Date \<Rightarrow> Date \<Rightarrow> Date list" where
  "AppointmentScheduler_generateTimeSlots now selectedDate =
     (let endHour = 17;
          startHour =
            (if isToday now selectedDate then
               (let currentHour = getHours now; currentMinute = getMinutes now in
                if currentHour \<ge> 9 then
                  (if currentMinute \<ge> 30 then currentHour + 1 else currentHour)
                else 9)
             else 9)
      in concat (map (\<lambda>hour. concat (map (\<lambda>minute.
           if isToday now selectedDate \<and>
              ((hour = startHour \<and> minute < getMinutes now \<and> getMinutes now > 30)
               \<or> hour < getHours now)
           then []
           else [setHours selectedDate hour minute 0 0]) [0, 30])) [startHour..<endHour]))"

text \<open>
  \<^verbatim>\<open>generateTimeSlots\<close> of the add-event dialog: the same loops, without the
  \<^verbatim>\<open>hour < now.getHours()\<close> disjunct in the skip test.
\<close>

definition AddEventModal_generateTimeSlots :: "Date \<Rightarrow> Date \<Rightarrow> Date list" where
  "AddEventModal_generateTimeSlots now selectedDate =
     (let endHour = 17;
          startHour =
            (if isToday now selectedDate then
               (let currentHour = getHours now; currentMinute = getMinutes now in
                if currentHour \<ge> 9 then
                  (if currentMinute \<ge> 30 then currentHour + 1 else currentHour)
                else 9)
             else 9)
      in concat (map (\<lambda>hour. concat (map (\<lambda>minute.
           if isToday now selectedDate \<and>
              hour = startHour \<and> minute < getMinutes now \<and> getMinutes now > 30
           then []
           else [setHours selectedDate hour minute 0 0]) [0, 30])) [startHour..<endHour]))"

text \<open>The sixteen half-hour starts of the working window, as (hour, minute) pairs.\<close>

definition fullDay :: "(nat \<times> nat) list" where
  "fullDay = [(9, 0), (9, 30), (10, 0), (10, 30), (11, 0), (11, 30), (12, 0), (12, 30),
              (13, 0), (13, 30), (14, 0), (14, 30), (15, 0), (15, 30), (16, 0), (16, 30)]"

definition hourMinute :: "Date \<Rightarrow> nat \<times> nat" where
  "hourMinute d = (getHours d, getMinutes d)"

text \<open>
  Two auxiliary views used in the proofs: the (hour, minute) pairs the two loops range
  over, and the slot the loop body builds for one pair.
\<close>

definition halfHours :: "nat \<Rightarrow> nat \<Rightarrow> (nat \<times> nat) list" where
  "halfHours s e = concat (map (\<lambda>h. [(h, 0), (h, 30)]) [s..<e])"

definition slotAt :: "Date \<Rightarrow> nat \<times> nat \<Rightarrow> Date" where
  "slotAt d hm = setHours d (fst hm) (snd hm) 0 0"

section \<open>Strings and numbers of the JavaScript runtime\<close>

text \<open>
  \<^verbatim>\<open>String.prototype.trim\<close>, on the ASCII white space characters (space, tab, line
  feed, vertical tab, form feed, carriage return).
\<close>

definition isWhiteSpace :: "char \<Rightarrow> bool" where
  "isWhiteSpace c \<longleftrightarrow> c \<in> {CHR '' '', CHR 0x09, CHR 0x0A, CHR 0x0B, CHR 0x0C, CHR 0x0D}"

definition trim :: "string \<Rightarrow> string" where
  "trim s = rev (dropWhile isWhiteSpace (rev (dropWhile isWhiteSpace s)))"

text \<open>\<^verbatim>\<open>Number.prototype.toString\<close> on integers: decimal digits, a minus sign if negative.\<close>

definition digitChar :: "nat \<Rightarrow> char" where
  "digitChar d = char_of (48 + d)"

function digits :: "nat \<Rightarrow> string" where
  "digits n = (if n < 10 then [digitChar n] else digits (n div 10) @ [digitChar (n mod 10)])"
  by pat_completeness auto
termination
  by (relation "measure (\<lambda>n. n)") auto

declare digits.simps [simp del]

definition Number_toString :: "int \<Rightarrow> string" where
  "Number_toString i = (if i < 0 then CHR ''-'' # digits (nat (- i)) else digits (nat i))"

text \<open>\<^verbatim>\<open>s.padStart(targetLength, c)\<close> with a one-character pad string.\<close>

definition padStart :: "nat \<Rightarrow> char \<Rightarrow> string \<Rightarrow> string" where
  "padStart targetLength c s = replicate (targetLength - length s) c @ s"

text \<open>
  date-fns \<^verbatim>\<open>format(t, 'HH:mm')\<close>, the form in which both dialogs persist a time of day:
  two-digit hour, colon, two-digit minute.
\<close>

definition format_HHmm :: "Date \<Rightarrow> string" where
  "format_HHmm t =
     padStart 2 (CHR ''0'') (Number_toString (int (getHours t))) @ '':'' @
     padStart 2 (CHR ''0'') (Number_toString (int (getMinutes t)))"

text \<open>
  \<^verbatim>\<open>a.localeCompare(b)\<close> is the locale collation of the runtime. The model is the
  code-unit order of the characters. The two agree on the strings the dialogs persist as
  times: zero-padded \<^verbatim>\<open>HH:mm\<close>, ASCII digits around a colon in a fixed position. They
  need not agree on other strings (collation puts the colon before the digits, the
  code-unit order puts it after them, so \<^verbatim>\<open>1:00\<close> and \<^verbatim>\<open>10:00\<close> compare differently).
  Every statement below about the order of the agenda is therefore made for \<^verbatim>\<open>HH:mm\<close>
  times only.
\<close>

definition localeCompare :: "string \<Rightarrow> string \<Rightarrow> int" where
  "localeCompare a b = (if a < b then - 1 else if b < a then 1 else 0)"

text \<open>
  The regular expression test of \<^verbatim>\<open>formatDateString\<close>: exactly four digits, a hyphen,
  two digits, a hyphen, two digits.
\<close>

definition isDigit :: "char \<Rightarrow> bool" where
  "isDigit c \<longleftrightarrow> CHR ''0'' \<le> c \<and> c \<le> CHR ''9''"

definition matchesYMD :: "string \<Rightarrow> bool" where
  "matchesYMD s \<longleftrightarrow>
     length s = 10 \<and> list_all isDigit (take 4 s) \<and> s ! 4 = CHR ''-'' \<and>
     list_all isDigit (take 2 (drop 5 s)) \<and> s ! 7 = CHR ''-'' \<and> list_all isDigit (drop 8 s)"

text \<open>
  The persisted form of a time of day: two digits, a colon, two digits, with the hour
  below 24 and the minute below 60; and the minute of the day such a string denotes.
\<close>

definition digitValue :: "char \<Rightarrow> nat" where
  "digitValue c = of_char c - 48"

definition isHHmm :: "string \<Rightarrow> bool" where
  "isHHmm s \<longleftrightarrow>
     length s = 5 \<and> isDigit (s ! 0) \<and> isDigit (s ! 1) \<and> s ! 2 = CHR '':'' \<and>
     isDigit (s ! 3) \<and> isDigit (s ! 4) \<and>
     digitValue (s ! 0) * 10 + digitValue (s ! 1) < 24 \<and>
     digitValue (s ! 3) * 10 + digitValue (s ! 4) < 60"

definition timeOfDay :: "string \<Rightarrow> nat" where
  "timeOfDay s =
     (digitValue (s ! 0) * 10 + digitValue (s ! 1)) * 60
     + (digitValue (s ! 3) * 10 + digitValue (s ! 4))"

section \<open>The date persisted on submission\<close>

text \<open>
  \<^verbatim>\<open>handleSchedule\<close> (appointment dialog) and \<^verbatim>\<open>handleAddEvent\<close> (event dialog) build the
  persisted date with the same template literal from the components of the selected date.
\<close>

definition handleSchedule_formattedDate :: "Date \<Rightarrow> string" where
  "handleSchedule_formattedDate date =
     (let year = getFullYear date;
          month = getMonth date + 1;
          day = getDate date
      in Number_toString year @ ''-'' @
         padStart 2 (CHR ''0'') (Number_toString (int month)) @ ''-'' @
         padStart 2 (CHR ''0'') (Number_toString (int day)))"

definition handleAddEvent_formattedDate :: "Date \<Rightarrow> string" where
  "handleAddEvent_formattedDate date =
     (let year = getFullYear date;
          month = getMonth date + 1;
          day = getDate date
      in Number_toString year @ ''-'' @
         padStart 2 (CHR ''0'') (Number_toString (int month)) @ ''-'' @
         padStart 2 (CHR ''0'') (Number_toString (int day)))"

section \<open>Validators of the two dialogs\<close>

text \<open>
  The form state each validator reads. \<^verbatim>\<open>newErrors\<close> is a JavaScript object used as a
  dictionary from field name to message.
\<close>

record AppointmentSchedulerState =
  doctorName :: string
  specialty :: string
  location :: string
  date :: DateValue
  time :: DateValue
  selectedTimeSlot :: DateValue
  showManualTimeInput :: bool
  isRecurring :: bool
  recurrencePattern :: "string option"
  recurrenceEnd :: DateValue
  duration :: int

record AddEventModalState =
  title :: string
  location :: string
  date :: DateValue
  time :: DateValue
  isAllDay :: bool
  isRecurring :: bool
  recurrencePattern :: "string option"

definition startOfDay :: "Date \<Rightarrow> Date" where
  "startOfDay d = setHours d 0 0 0 0"

text \<open>A \<^verbatim>\<open>string | null\<close> value is falsy when it is \<^verbatim>\<open>null\<close> or empty.\<close>

definition falsy :: "string option \<Rightarrow> bool" where
  "falsy v \<longleftrightarrow> (case v of None \<Rightarrow> True | Some s \<Rightarrow> s = [])"

text \<open>
  \<^verbatim>\<open>validateInputs\<close> of the appointment dialog. Each commented block of the function is
  one step that takes \<^verbatim>\<open>newErrors\<close> and returns it updated; the function runs the steps
  in order, starting from the empty object. The ambient \<^verbatim>\<open>new Date()\<close> is \<open>now\<close>.
\<close>

definition AS_requiredText :: "AppointmentSchedulerState \<Rightarrow> (string \<rightharpoonup> string) \<Rightarrow> (string \<rightharpoonup> string)" where
  "AS_requiredText st newErrors =
     (let e1 = (if trim (doctorName st) = []
                then newErrors(''doctorName'' \<mapsto> ''Doctor name is required'') else newErrors);
          e2 = (if trim (specialty st) = []
                then e1(''specialty'' \<mapsto> ''Specialty is required'') else e1)
      in if trim (AppointmentSchedulerState.location st) = []
         then e2(''location'' \<mapsto> ''Location is required'') else e2)"

definition AS_dateValidation ::
  "Date \<Rightarrow> AppointmentSchedulerState \<Rightarrow> (string \<rightharpoonup> string) \<Rightarrow> (string \<rightharpoonup> string)" where
  "AS_dateValidation now st newErrors =
     (case AppointmentSchedulerState.date st of
        Null \<Rightarrow> newErrors(''date'' \<mapsto> ''Date is required'')
      | InvalidDate \<Rightarrow> newErrors(''date'' \<mapsto> ''Valid date is required'')
      | ValidDate d \<Rightarrow>
          if isBefore d (startOfDay now) \<and> \<not> isToday now d
          then newErrors(''date'' \<mapsto> ''Date cannot be in the past'') else newErrors)"

definition AS_timeValidation ::
  "Date \<Rightarrow> AppointmentSchedulerState \<Rightarrow> (string \<rightharpoonup> string) \<Rightarrow> (string \<rightharpoonup> string)" where
  "AS_timeValidation now st newErrors =
     (case AppointmentSchedulerState.time st of
        Null \<Rightarrow> newErrors(''time'' \<mapsto> ''Time is required'')
      | InvalidDate \<Rightarrow> newErrors(''time'' \<mapsto> ''Valid time is required'')
      | ValidDate t \<Rightarrow>
          if selectedTimeSlot st = Null \<and> \<not> showManualTimeInput st
          then newErrors(''time'' \<mapsto> ''Please select a time slot'')
          else (case AppointmentSchedulerState.date st of
                  ValidDate d \<Rightarrow>
                    (let selectedDateTime = d\<lparr>getHours := getHours t, getMinutes := getMinutes t\<rparr>
                     in if isToday now d \<and> isBefore selectedDateTime now
                        then newErrors(''time'' \<mapsto> ''Time cannot be in the past'') else newErrors)
                | _ \<Rightarrow> newErrors))"

definition AS_recurrenceValidation ::
  "AppointmentSchedulerState \<Rightarrow> (string \<rightharpoonup> string) \<Rightarrow> (string \<rightharpoonup> string)" where
  "AS_recurrenceValidation st newErrors =
     (if AppointmentSchedulerState.isRecurring st \<and> falsy (AppointmentSchedulerState.recurrencePattern st)
      then newErrors(''recurrence'' \<mapsto> ''Please select a recurrence pattern'') else newErrors)"

definition AS_recurrenceEndValidation ::
  "AppointmentSchedulerState \<Rightarrow> (string \<rightharpoonup> string) \<Rightarrow> (string \<rightharpoonup> string)" where
  "AS_recurrenceEndValidation st newErrors =
     (if AppointmentSchedulerState.isRecurring st
         \<and> \<not> falsy (AppointmentSchedulerState.recurrencePattern st)
         \<and> recurrenceEnd st \<noteq> Null
      then (case recurrenceEnd st of
              ValidDate r \<Rightarrow>
                (case AppointmentSchedulerState.date st of
                   ValidDate d \<Rightarrow>
                     if isBefore r d
                     then newErrors(''recurrence'' \<mapsto> ''Recurrence end date must be after appointment date'')
                     else newErrors
                 | _ \<Rightarrow> newErrors)
            | _ \<Rightarrow> newErrors(''recurrence'' \<mapsto> ''Invalid recurrence end date''))
      else newErrors)"

definition AS_durationValidation ::
  "AppointmentSchedulerState \<Rightarrow> (string \<rightharpoonup> string) \<Rightarrow> (string \<rightharpoonup> string)" where
  "AS_durationValidation st newErrors =
     (if duration st = 0 then newErrors(''duration'' \<mapsto> ''Duration is required'')
      else if duration st < 15 then newErrors(''duration'' \<mapsto> ''Duration must be at least 15 minutes'')
      else if duration st > 240 then newErrors(''duration'' \<mapsto> ''Duration cannot exceed 4 hours'')
      else newErrors)"

definition validateInputs :: "Date \<Rightarrow> AppointmentSchedulerState \<Rightarrow> (string \<rightharpoonup> string)" where
  "validateInputs now st =
     (let newErrors = Map.empty;
          newErrors = AS_requiredText st newErrors;
          newErrors = AS_dateValidation now st newErrors;
          newErrors = AS_timeValidation now st newErrors;
          newErrors = AS_recurrenceValidation st newErrors;
          newErrors = AS_recurrenceEndValidation st newErrors;
          newErrors = AS_durationValidation st newErrors
      in newErrors)"

text \<open>\<^verbatim>\<open>validateForm\<close> of the event dialog, in the same style.\<close>

definition AE_requiredText :: "AddEventModalState \<Rightarrow> (string \<rightharpoonup> string) \<Rightarrow> (string \<rightharpoonup> string)" where
  "AE_requiredText st newErrors =
     (let e1 = (if trim (title st) = []
                then newErrors(''title'' \<mapsto> ''Event title is required'') else newErrors)
      in if trim (AddEventModalState.location st) = []
         then e1(''location'' \<mapsto> ''Location is required'') else e1)"

definition AE_dateValidation ::
  "Date \<Rightarrow> AddEventModalState \<Rightarrow> (string \<rightharpoonup> string) \<Rightarrow> (string \<rightharpoonup> string)" where
  "AE_dateValidation now st newErrors =
     (case AddEventModalState.date st of
        Null \<Rightarrow> newErrors(''date'' \<mapsto> ''Date is required'')
      | InvalidDate \<Rightarrow> newErrors(''date'' \<mapsto> ''Valid date is required'')
      | ValidDate d \<Rightarrow>
          if isBefore d now \<and> \<not> isToday now d
          then newErrors(''date'' \<mapsto> ''Date cannot be in the past'') else newErrors)"

definition AE_timeValidation :: "AddEventModalState \<Rightarrow> (string \<rightharpoonup> string) \<Rightarrow> (string \<rightharpoonup> string)" where
  "AE_timeValidation st newErrors =
     (if \<not> isAllDay st then
        (case AddEventModalState.time st of
           Null \<Rightarrow> newErrors(''time'' \<mapsto> ''Time is required'')
         | InvalidDate \<Rightarrow> newErrors(''time'' \<mapsto> ''Valid time is required'')
         | ValidDate t \<Rightarrow> newErrors)
      else newErrors)"

definition AE_recurrenceValidation :: "AddEventModalState \<Rightarrow> (string \<rightharpoonup> string) \<Rightarrow> (string \<rightharpoonup> string)" where
  "AE_recurrenceValidation st newErrors =
     (if AddEventModalState.isRecurring st \<and> falsy (AddEventModalState.recurrencePattern st)
      then newErrors(''recurrence'' \<mapsto> ''Please select a recurrence pattern'') else newErrors)"

definition validateForm :: "Date \<Rightarrow> AddEventModalState \<Rightarrow> (string \<rightharpoonup> string)" where
  "validateForm now st =
     (let newErrors = Map.empty;
          newErrors = AE_requiredText st newErrors;
          newErrors = AE_dateValidation now st newErrors;
          newErrors = AE_timeValidation st newErrors;
          newErrors = AE_recurrenceValidation st newErrors
      in newErrors)"

section \<open>Calendar screen\<close>

text \<open>
  Events and appointments as the calendar screen receives them from the store: dates as
  \<^verbatim>\<open>YYYY-MM-DD\<close> strings, times as \<^verbatim>\<open>HH:mm\<close> strings, an event's time \<^verbatim>\<open>null\<close> when
  it is all-day, statuses and categories as strings.
\<close>

record Event =
  id :: "string option"
  title :: string
  date :: string
  time :: "string option"
  location :: string
  isAllDay :: bool
  isRecurring :: bool
  recurrencePattern :: "string option"
  recurrenceEnd :: "string option"
  category :: string
  color :: "string option"
  status :: string

record Appointment =
  id :: string
  doctorName :: string
  specialty :: string
  date :: string
  time :: string
  location :: string
  status :: string
  isRecurring :: bool
  recurrencePattern :: "string option"
  recurrenceEnd :: "string option"
  color :: "string option"

text \<open>
  The colour constants the screen imports (\<^verbatim>\<open>Colors.light\<close>); their values live outside
  the screen and are a parameter here.
\<close>

record Colors_light =
  primary :: string
  wellness :: string
  appointment :: string

definition EVENT_COLORS :: "Colors_light \<Rightarrow> string \<rightharpoonup> string" where
  "EVENT_COLORS L = map_of
     [(''personal'', primary L),
      (''work'', ''#FF9500''),
      (''family'', ''#FF3B30''),
      (''health'', wellness L),
      (''other'', ''#8E8E93''),
      (''appointment'', appointment L)]"

text \<open>
  \<^verbatim>\<open>EVENT_COLORS[key]\<close> is \<^verbatim>\<open>undefined\<close> for a key the table does not have; the
  category \<^verbatim>\<open>social\<close> of the event dialog is such a key.

  JavaScript \<^verbatim>\<open>a || b\<close> on possibly-undefined strings:
\<close>

definition orElse :: "string option \<Rightarrow> string option \<Rightarrow> string option" where
  "orElse a b = (if falsy a then b else a)"

subsection \<open>Month markers\<close>

text \<open>
  \<^verbatim>\<open>formatDateString\<close>, local to \<^verbatim>\<open>updateMarkedDates\<close>. The fallback path (parse with
  \<^verbatim>\<open>new Date\<close>, format with date-fns, return the input when that throws) is the
  parameter \<open>reformat\<close>.
\<close>

definition formatDateString :: "(string \<Rightarrow> string) \<Rightarrow> string \<Rightarrow> string" where
  "formatDateString reformat dateStr =
     (if dateStr = [] then []
      else if matchesYMD dateStr then dateStr
      else reformat dateStr)"

record Dot =
  key :: "string option"
  color :: "string option"

record Marking =
  dots :: "Dot list"
  selected :: bool
  selectedColor :: "string option"
  selectedTextColor :: "string option"

definition eventDot :: "Colors_light \<Rightarrow> Event \<Rightarrow> Dot" where
  "eventDot L event =
     \<lparr>key = Event.id event,
      color = orElse (Event.color event)
                (orElse (EVENT_COLORS L (if category event = [] then ''other'' else category event))
                   (Some (primary L)))\<rparr>"

definition appointmentDot :: "Colors_light \<Rightarrow> Appointment \<Rightarrow> Dot" where
  "appointmentDot L appt = \<lparr>key = Some (Appointment.id appt), color = Some (appointment L)\<rparr>"

text \<open>Adding one dot under a date key: push onto the existing entry, or create the entry.\<close>

definition addDot :: "(string \<rightharpoonup> Marking) \<Rightarrow> string \<Rightarrow> Dot \<Rightarrow> (string \<rightharpoonup> Marking)" where
  "addDot marked formattedDate dot =
     (case marked formattedDate of
        Some m \<Rightarrow> marked(formattedDate \<mapsto> m\<lparr>dots := dots m @ [dot]\<rparr>)
      | None \<Rightarrow> marked(formattedDate \<mapsto>
          \<lparr>dots = [dot], selected = False, selectedColor = None, selectedTextColor = None\<rparr>))"

text \<open>The bodies of the two \<^verbatim>\<open>forEach\<close> callbacks.\<close>

definition markEvent ::
  "Colors_light \<Rightarrow> (string \<Rightarrow> string) \<Rightarrow> (string \<rightharpoonup> Marking) \<Rightarrow> Event \<Rightarrow> (string \<rightharpoonup> Marking)" where
  "markEvent L reformat marked event =
     (if Event.status event \<noteq> ''cancelled''
      then addDot marked (formatDateString reformat (Event.date event)) (eventDot L event)
      else marked)"

definition markAppointment ::
  "Colors_light \<Rightarrow> (string \<Rightarrow> string) \<Rightarrow> (string \<rightharpoonup> Marking) \<Rightarrow> Appointment \<Rightarrow> (string \<rightharpoonup> Marking)" where
  "markAppointment L reformat marked appt =
     addDot marked (formatDateString reformat (Appointment.date appt)) (appointmentDot L appt)"

text \<open>
  \<^verbatim>\<open>updateMarkedDates(eventsList, appointmentsList)\<close>. It reads the selected date and
  the theme's primary colour from the component; both are parameters.
\<close>

definition updateMarkedDates ::
  "Colors_light \<Rightarrow> string \<Rightarrow> (string \<Rightarrow> string) \<Rightarrow> string \<Rightarrow> Event list \<Rightarrow> Appointment list
     \<Rightarrow> (string \<rightharpoonup> Marking)" where
  "updateMarkedDates L colors_primary reformat selectedDate eventsList appointmentsList =
     (let marked = foldl (markEvent L reformat) Map.empty eventsList;
          marked = foldl (markAppointment L reformat) marked appointmentsList
      in case marked selectedDate of
           Some m \<Rightarrow> marked(selectedDate \<mapsto>
             m\<lparr>selected := True,
               selectedColor := Some (colors_primary @ ''80''),
               selectedTextColor := Some ''#ffffff''\<rparr>)
         | None \<Rightarrow> marked(selectedDate \<mapsto>
             \<lparr>dots = [], selected = True,
              selectedColor = Some (colors_primary @ ''80''),
              selectedTextColor = Some ''#ffffff''\<rparr>))"

text \<open>
  The appointment listener keeps only active appointments before it stores them and
  recomputes the markers.
\<close>

definition activeAppointments :: "Appointment list \<Rightarrow> Appointment list" where
  "activeAppointments appointmentsList =
     filter (\<lambda>apt. Appointment.status apt \<noteq> ''cancelled'') appointmentsList"

definition markersForMonth ::
  "Colors_light \<Rightarrow> string \<Rightarrow> (string \<Rightarrow> string) \<Rightarrow> string \<Rightarrow> Event list \<Rightarrow> Appointment list
     \<Rightarrow> (string \<rightharpoonup> Marking)" where
  "markersForMonth L colors_primary reformat selectedDate eventsList appointmentsList =
     updateMarkedDates L colors_primary reformat selectedDate eventsList
       (activeAppointments appointmentsList)"

definition dotsOn :: "(string \<rightharpoonup> Marking) \<Rightarrow> string \<Rightarrow> Dot list" where
  "dotsOn marked d = (case marked d of None \<Rightarrow> [] | Some m \<Rightarrow> dots m)"

subsection \<open>Agenda of the selected date\<close>

text \<open>
  An element of the combined array: an event object as it is, or the object the screen
  builds from an appointment (all fields of the appointment, plus \<^verbatim>\<open>title\<close>,
  \<^verbatim>\<open>category\<close> and \<^verbatim>\<open>isAppointment: true\<close>).
\<close>

datatype AgendaItem = EventItem Event | AppointmentItem Appointment

fun item_isAppointment :: "AgendaItem \<Rightarrow> bool" where
  "item_isAppointment (EventItem e) = False"
| "item_isAppointment (AppointmentItem a) = True"

fun item_isAllDay :: "AgendaItem \<Rightarrow> bool" where
  "item_isAllDay (EventItem e) = isAllDay e"
| "item_isAllDay (AppointmentItem a) = False"

fun item_time :: "AgendaItem \<Rightarrow> string option" where
  "item_time (EventItem e) = Event.time e"
| "item_time (AppointmentItem a) = Some (Appointment.time a)"

fun item_title :: "AgendaItem \<Rightarrow> string" where
  "item_title (EventItem e) = Event.title e"
| "item_title (AppointmentItem a) =
     ''Dr. '' @ Appointment.doctorName a @ '' ('' @ Appointment.specialty a @ '')''"

fun item_category :: "AgendaItem \<Rightarrow> string" where
  "item_category (EventItem e) = category e"
| "item_category (AppointmentItem a) = ''appointment''"

fun item_date :: "AgendaItem \<Rightarrow> string" where
  "item_date (EventItem e) = Event.date e"
| "item_date (AppointmentItem a) = Appointment.date a"

fun item_status :: "AgendaItem \<Rightarrow> string" where
  "item_status (EventItem e) = Event.status e"
| "item_status (AppointmentItem a) = Appointment.status a"

datatype error = TypeError

text \<open>
  The sort comparator. \<^verbatim>\<open>a.time.localeCompare(b.time)\<close> throws a \<^verbatim>\<open>TypeError\<close> when
  \<^verbatim>\<open>a.time\<close> is \<^verbatim>\<open>null\<close>; a \<^verbatim>\<open>null\<close> argument is converted to the string
  \<^verbatim>\<open>"null"\<close>.
\<close>

definition compareItems :: "AgendaItem \<Rightarrow> AgendaItem \<Rightarrow> error + int" where
  "compareItems a b =
     (if item_isAllDay a then Inr (- 1)
      else if item_isAllDay b then Inr 1
      else (case item_time a of
              None \<Rightarrow> Inl TypeError
            | Some ta \<Rightarrow>
                Inr (localeCompare ta (case item_time b of None \<Rightarrow> ''null'' | Some tb \<Rightarrow> tb))))"

text \<open>
  \<^verbatim>\<open>Array.prototype.sort\<close> with a comparator, as a stable insertion sort: an element
  goes in front of the first element of the sorted rest that it does not compare
  greater than, and an exception thrown by the comparator propagates. The language
  standard fixes the result of a sort for a consistent comparator and requires
  stability. This comparator answers \<open>-1\<close> both ways on two all-day entries, so their
  relative order is up to the engine; no statement below depends on it.
\<close>

fun insertSorted :: "('a \<Rightarrow> 'a \<Rightarrow> error + int) \<Rightarrow> 'a \<Rightarrow> 'a list \<Rightarrow> error + 'a list" where
  "insertSorted cmp x [] = Inr [x]"
| "insertSorted cmp x (y # ys) =
     (case cmp x y of
        Inl e \<Rightarrow> Inl e
      | Inr c \<Rightarrow>
          if c \<le> 0 then Inr (x # y # ys)
          else (case insertSorted cmp x ys of Inl e \<Rightarrow> Inl e | Inr zs \<Rightarrow> Inr (y # zs)))"

fun Array_sort :: "('a \<Rightarrow> 'a \<Rightarrow> error + int) \<Rightarrow> 'a list \<Rightarrow> error + 'a list" where
  "Array_sort cmp [] = Inr []"
| "Array_sort cmp (x # xs) =
     (case Array_sort cmp xs of Inl e \<Rightarrow> Inl e | Inr ys \<Rightarrow> insertSorted cmp x ys)"

text \<open>
  \<^verbatim>\<open>updateSelectedDateEvents(date)\<close> over the component's \<^verbatim>\<open>events\<close> and
  \<^verbatim>\<open>appointments\<close> state; its parameter \<^verbatim>\<open>date\<close> is written \<open>date'\<close>, the plain
  name being the record field.
\<close>

definition updateSelectedDateEvents ::
  "Event list \<Rightarrow> Appointment list \<Rightarrow> string \<Rightarrow> error + AgendaItem list" where
  "updateSelectedDateEvents events appointments date' =
     (let dateEvents = filter (\<lambda>event. Event.date event = date') events;
          dateAppointments = filter (\<lambda>apt. Appointment.date apt = date') appointments
      in Array_sort compareItems (map EventItem dateEvents @ map AppointmentItem dateAppointments))"

text \<open>
  The agenda for a date, from the two snapshots: the appointment snapshot passes through
  the listener's filter before it becomes the \<^verbatim>\<open>appointments\<close> state.
\<close>

definition agendaForDate ::
  "Event list \<Rightarrow> Appointment list \<Rightarrow> string \<Rightarrow> error + AgendaItem list" where
  "agendaForDate eventsList appointmentsList date' =
     updateSelectedDateEvents eventsList (activeAppointments appointmentsList) date'"

text \<open>
  The order the agenda is meant to have, entry \<open>a\<close> displayed above entry \<open>b\<close>: all-day
  entries first, then ascending time of day, and on equal rank (both all-day, or the same
  time of day) never an appointment above an event. The time of day is the one the
  \<^verbatim>\<open>HH:mm\<close> string denotes.
\<close>

definition agendaOrder :: "AgendaItem \<Rightarrow> AgendaItem \<Rightarrow> bool" where
  "agendaOrder a b \<longleftrightarrow>
     (item_isAllDay b \<longrightarrow> item_isAllDay a) \<and>
     (\<not> item_isAllDay a \<and> \<not> item_isAllDay b \<longrightarrow>
        (case (item_time a, item_time b) of
           (Some ta, Some tb) \<Rightarrow> timeOfDay ta \<le> timeOfDay tb
         | _ \<Rightarrow> False)) \<and>
     ((item_isAllDay a \<and> item_isAllDay b) \<or>
      (\<not> item_isAllDay a \<and> \<not> item_isAllDay b \<and>
       map_option timeOfDay (item_time a) = map_option timeOfDay (item_time b))
        \<longrightarrow> \<not> (item_isAppointment a \<and> \<not> item_isAppointment b))"

text \<open>
  The same order read off the strings themselves, as the comparator sees them; it is an
  intermediate notion of the proofs.
\<close>

definition timeLe :: "AgendaItem \<Rightarrow> AgendaItem \<Rightarrow> bool" where
  "timeLe a b = (case (item_time a, item_time b) of (Some ta, Some tb) \<Rightarrow> ta \<le> tb | _ \<Rightarrow> False)"

definition agendaOrderByString :: "AgendaItem \<Rightarrow> AgendaItem \<Rightarrow> bool" where
  "agendaOrderByString a b \<longleftrightarrow>
     (item_isAllDay b \<longrightarrow> item_isAllDay a) \<and>
     (\<not> item_isAllDay a \<and> \<not> item_isAllDay b \<longrightarrow> timeLe a b) \<and>
     ((item_isAllDay a \<and> item_isAllDay b) \<or>
      (\<not> item_isAllDay a \<and> \<not> item_isAllDay b \<and> item_time a = item_time b)
        \<longrightarrow> \<not> (item_isAppointment a \<and> \<not> item_isAppointment b))"

subsection \<open>The screen's state and its handlers\<close>

text \<open>
  The state variables of \<^verbatim>\<open>CalendarScreen\<close> that feed the marker map. (The agenda state
  \<^verbatim>\<open>selectedDateEvents\<close> is recomputed by its own effect and does not feed the map.)
  At mount, \<^verbatim>\<open>selected\<close> is today's date and the other three are empty.
\<close>

record CalendarScreenState =
  selected :: string
  markedDates :: "string \<rightharpoonup> Marking"
  events :: "Event list"
  appointments :: "Appointment list"

definition initialState :: "string \<Rightarrow> CalendarScreenState" where
  "initialState today =
     \<lparr>CalendarScreenState.selected = today, markedDates = Map.empty, events = [], appointments = []\<rparr>"

text \<open>
  The two snapshot listeners are registered by the effect with dependency list
  \<^verbatim>\<open>[currentUser]\<close>, so once per user. Their callbacks are closures of the render in
  which the effect ran: the \<^verbatim>\<open>updateMarkedDates\<close>, \<^verbatim>\<open>events\<close> and \<^verbatim>\<open>appointments\<close> they
  name are that render's, and so is the \<^verbatim>\<open>selected\<close> that \<^verbatim>\<open>updateMarkedDates\<close> reads.
  \<open>render\<close> is the state as that render saw it; \<open>st\<close> is the state when the snapshot
  arrives. The setters write the current state.
\<close>

definition listenToEvents_callback ::
  "Colors_light \<Rightarrow> string \<Rightarrow> (string \<Rightarrow> string) \<Rightarrow> CalendarScreenState \<Rightarrow> Event list
     \<Rightarrow> CalendarScreenState \<Rightarrow> CalendarScreenState" where
  "listenToEvents_callback L colors_primary reformat render eventsList st =
     st\<lparr>events := eventsList,
        markedDates := updateMarkedDates L colors_primary reformat
                         (CalendarScreenState.selected render) eventsList (appointments render)\<rparr>"

definition listenToAppointments_callback ::
  "Colors_light \<Rightarrow> string \<Rightarrow> (string \<Rightarrow> string) \<Rightarrow> CalendarScreenState \<Rightarrow> Appointment list
     \<Rightarrow> CalendarScreenState \<Rightarrow> CalendarScreenState" where
  "listenToAppointments_callback L colors_primary reformat render appointmentsList st =
     (let activeAppointments =
            filter (\<lambda>apt. Appointment.status apt \<noteq> ''cancelled'') appointmentsList
      in st\<lparr>appointments := activeAppointments,
            markedDates := updateMarkedDates L colors_primary reformat
                             (CalendarScreenState.selected render) (events render)
                             activeAppointments\<rparr>)"

text \<open>
  \<^verbatim>\<open>onDayPress\<close> is passed to the calendar on every render, so it sees the current
  state. Pressing the day that is already selected writes a temporary highlight (in the
  accent colour \<open>accent\<close>; a temporary entry made from nothing has no dots) and schedules
  \<^verbatim>\<open>updateMarkedDates(events, appointments)\<close> of that render 300 ms later, which is
  \<open>onDayPress_timeout\<close>. Pressing any other day only sets \<^verbatim>\<open>selected\<close>: the marker map
  is not recomputed.
\<close>

definition onDayPress :: "string \<Rightarrow> string \<Rightarrow> CalendarScreenState \<Rightarrow> CalendarScreenState" where
  "onDayPress accent formattedDate st =
     (let st1 =
        (if CalendarScreenState.selected st = formattedDate then
           st\<lparr>markedDates := (markedDates st)(formattedDate \<mapsto>
                (case markedDates st formattedDate of
                   Some m \<Rightarrow> m\<lparr>Marking.selected := True, selectedColor := Some accent\<rparr>
                 | None \<Rightarrow> \<lparr>dots = [], Marking.selected = True, selectedColor = Some accent,
                              selectedTextColor = None\<rparr>))\<rparr>
         else st)
      in st1\<lparr>CalendarScreenState.selected := formattedDate\<rparr>)"

definition onDayPress_timeout ::
  "Colors_light \<Rightarrow> string \<Rightarrow> (string \<Rightarrow> string) \<Rightarrow> CalendarScreenState
     \<Rightarrow> CalendarScreenState \<Rightarrow> CalendarScreenState" where
  "onDayPress_timeout L colors_primary reformat render st =
     st\<lparr>markedDates := updateMarkedDates L colors_primary reformat
                         (CalendarScreenState.selected render) (events render) (appointments render)\<rparr>"

section \<open>Sample values\<close>

text \<open>
  Concrete dates for the closed examples below. A date picked on the calendar is built as
  \<^verbatim>\<open>new Date(year, month - 1, day, 12, 0, 0, 0)\<close>, local noon of that day.
\<close>

definition may31 :: Date where
  "may31 = \<lparr>getFullYear = 2024, getMonth = 4, getDate = 31, getHours = 12, getMinutes = 0,
             getSeconds = 0, getMilliseconds = 0\<rparr>"

definition june1 :: Date where
  "june1 = \<lparr>getFullYear = 2024, getMonth = 5, getDate = 1, getHours = 12, getMinutes = 0,
             getSeconds = 0, getMilliseconds = 0\<rparr>"

definition june2 :: Date where
  "june2 = \<lparr>getFullYear = 2024, getMonth = 5, getDate = 2, getHours = 12, getMinutes = 0,
             getSeconds = 0, getMilliseconds = 0\<rparr>"

text \<open>The instant \<open>h:m:00.000\<close> on the day of \<open>d\<close>.\<close>

definition atTime :: "Date \<Rightarrow> nat \<Rightarrow> nat \<Rightarrow> Date" where
  "atTime d h m = setHours d h m 0 0"

text \<open>The colour constants, with sample values.\<close>

definition sampleColors :: Colors_light where
  "sampleColors = \<lparr>primary = ''#007AFF'', wellness = ''#34C759'', appointment = ''#5856D6''\<rparr>"

text \<open>Appointments: two active ones with their own colours, and a cancelled one.\<close>

definition checkup :: Appointment where
  "checkup = \<lparr>Appointment.id = ''a1'', doctorName = ''Rao'', specialty = ''Cardiology'',
      date = ''2024-06-01'', time = ''09:00'', location = ''Clinic'', status = ''upcoming'',
      isRecurring = False, recurrencePattern = None, recurrenceEnd = None,
      color = Some ''#FF0000''\<rparr>"

definition followup :: Appointment where
  "followup = \<lparr>Appointment.id = ''a2'', doctorName = ''Rao'', specialty = ''Cardiology'',
      date = ''2024-06-02'', time = ''10:30'', location = ''Clinic'', status = ''upcoming'',
      isRecurring = False, recurrencePattern = None, recurrenceEnd = None,
      color = Some ''#00FF00''\<rparr>"

definition cancelledVisit :: Appointment where
  "cancelledVisit = \<lparr>Appointment.id = ''a3'', doctorName = ''Lee'', specialty = ''Dentistry'',
      date = ''2024-06-01'', time = ''08:00'', location = ''Clinic'', status = ''cancelled'',
      isRecurring = False, recurrencePattern = None, recurrenceEnd = None, color = None\<rparr>"

text \<open>
  Events: an all-day one without a colour in a category the colour table lacks, one with
  its own colour, two without a colour in categories the table has, a cancelled one, and
  a weekly recurring one anchored on 2024-01-01.
\<close>

definition picnic :: Event where
  "picnic = \<lparr>Event.id = Some ''e1'', title = ''Picnic'', date = ''2024-06-01'', time = None,
      location = ''Park'', isAllDay = True, isRecurring = False, recurrencePattern = None,
      recurrenceEnd = None, category = ''social'', color = None, status = ''upcoming''\<rparr>"

definition briefing :: Event where
  "briefing = \<lparr>Event.id = Some ''e3'', title = ''Briefing'', date = ''2024-06-01'',
      time = Some ''09:00'', location = ''Office'', isAllDay = False, isRecurring = False,
      recurrencePattern = None, recurrenceEnd = None, category = ''work'',
      color = Some ''#AF52DE'', status = ''upcoming''\<rparr>"

definition jog :: Event where
  "jog = \<lparr>Event.id = Some ''e6'', title = ''Jog'', date = ''2024-06-01'',
      time = Some ''07:15'', location = ''Park'', isAllDay = False, isRecurring = False,
      recurrencePattern = None, recurrenceEnd = None, category = ''health'',
      color = None, status = ''upcoming''\<rparr>"

definition lunch :: Event where
  "lunch = \<lparr>Event.id = Some ''e4'', title = ''Lunch'', date = ''2024-06-01'',
      time = Some ''12:30'', location = ''Cafe'', isAllDay = False, isRecurring = False,
      recurrencePattern = None, recurrenceEnd = None, category = ''personal'',
      color = None, status = ''upcoming''\<rparr>"

definition cancelledParty :: Event where
  "cancelledParty = \<lparr>Event.id = Some ''e5'', title = ''Party'', date = ''2024-06-01'',
      time = Some ''18:00'', location = ''Home'', isAllDay = False, isRecurring = False,
      recurrencePattern = None, recurrenceEnd = None, category = ''personal'',
      color = None, status = ''cancelled''\<rparr>"

definition standup :: Event where
  "standup = \<lparr>Event.id = Some ''e2'', title = ''Stand-up'', date = ''2024-01-01'',
      time = Some ''09:00'', location = ''Office'', isAllDay = False, isRecurring = True,
      recurrencePattern = Some ''weekly'', recurrenceEnd = None, category = ''work'',
      color = Some ''#FF9500'', status = ''upcoming''\<rparr>"

text \<open>
  Two filled-in forms for today (2024-06-01) with the time 09:00: a timed event and an
  appointment whose time was picked from the slot list.
\<close>

definition eventForm :: AddEventModalState where
  "eventForm = \<lparr>AddEventModalState.title = ''Briefing'',
      AddEventModalState.location = ''Office'',
      AddEventModalState.date = ValidDate june1,
      AddEventModalState.time = ValidDate (atTime june1 9 0),
      AddEventModalState.isAllDay = False, AddEventModalState.isRecurring = False,
      AddEventModalState.recurrencePattern = None\<rparr>"

definition appointmentForm :: AppointmentSchedulerState where
  "appointmentForm = \<lparr>AppointmentSchedulerState.doctorName = ''Rao'',
      AppointmentSchedulerState.specialty = ''Cardiology'',
      AppointmentSchedulerState.location = ''Clinic'',
      AppointmentSchedulerState.date = ValidDate june1,
      AppointmentSchedulerState.time = ValidDate (atTime june1 9 0),
      AppointmentSchedulerState.selectedTimeSlot = ValidDate (atTime june1 9 0),
      AppointmentSchedulerState.showManualTimeInput = False,
      AppointmentSchedulerState.isRecurring = False,
      AppointmentSchedulerState.recurrencePattern = None,
      AppointmentSchedulerState.recurrenceEnd = Null,
      AppointmentSchedulerState.duration = 30\<rparr>"

section \<open>Auxiliary notions for the agenda order\<close>

text \<open>
  What the comparator decides on entries that have a time whenever they are not all-day:
  \<open>rankLe a b\<close> is the test ``the comparator's result on \<open>(a, b)\<close> is not positive''.
  \<open>eventsFirst\<close> is the order of the array handed to the sort.
\<close>

definition hasTime :: "AgendaItem \<Rightarrow> bool" where
  "hasTime i \<longleftrightarrow> item_isAllDay i \<or> item_time i \<noteq> None"

definition rankLe :: "AgendaItem \<Rightarrow> AgendaItem \<Rightarrow> bool" where
  "rankLe a b \<longleftrightarrow> item_isAllDay a \<or> (\<not> item_isAllDay b \<and> timeLe a b)"

definition eventsFirst :: "AgendaItem \<Rightarrow> AgendaItem \<Rightarrow> bool" where
  "eventsFirst a b \<longleftrightarrow> \<not> (item_isAppointment a \<and> \<not> item_isAppointment b)"

text \<open>An entry that is all-day or whose time is a persisted \<^verbatim>\<open>HH:mm\<close> string.\<close>

definition hasHHmm :: "AgendaItem \<Rightarrow> bool" where
  "hasHHmm i \<longleftrightarrow>
     item_isAllDay i \<or> (case item_time i of None \<Rightarrow> False | Some s \<Rightarrow> isHHmm s)"

section \<open>Properties of the slot generator\<close>

lemma upt_9_17: "[9..<17] = [9, 10, 11, 12, 13, 14, 15, 16::nat]"
  by (simp add: upt_rec)

lemma loops_as_filter:
  "concat (map (\<lambda>h. concat (map (\<lambda>m. if P h m then [] else [setHours d h m 0 0]) [0, 30])) hs)
   = map (slotAt d) (filter (\<lambda>hm. \<not> P (fst hm) (snd hm)) (concat (map (\<lambda>h. [(h, 0), (h, 30)]) hs)))"
  by (induction hs) (auto simp: slotAt_def)

lemma set_halfHours: "set (halfHours s e) = {(h, m). s \<le> h \<and> h < e \<and> (m = 0 \<or> m = 30)}"
  by (auto simp: halfHours_def)

lemma sorted_halfHours:
  "sorted_wrt (\<lambda>a b. fst a * 60 + snd a < fst b * 60 + snd b) (halfHours s e)"
proof (induction e)
  case 0
  show ?case by (simp add: halfHours_def)
next
  case (Suc e)
  show ?case
  proof (cases "s \<le> e")
    case True
    have split: "halfHours s (Suc e) = halfHours s e @ [(e, 0), (e, 30)]"
      using True by (simp add: halfHours_def)
    show ?thesis
      unfolding split using Suc.IH by (auto simp: sorted_wrt_append set_halfHours)
  next
    case False
    then show ?thesis by (simp add: halfHours_def)
  qed
qed

text \<open>On a day other than today both generators return the full working day.\<close>

lemma AppointmentScheduler_other_day:
  "\<not> isToday now sel \<Longrightarrow>
     AppointmentScheduler_generateTimeSlots now sel = map (slotAt sel) fullDay"
  by (simp add: AppointmentScheduler_generateTimeSlots_def upt_9_17 fullDay_def slotAt_def)

lemma AddEventModal_other_day:
  "\<not> isToday now sel \<Longrightarrow> AddEventModal_generateTimeSlots now sel = map (slotAt sel) fullDay"
  by (simp add: AddEventModal_generateTimeSlots_def upt_9_17 fullDay_def slotAt_def)

lemma dayBefore_not_today: "dayBefore a b \<or> dayBefore b a \<Longrightarrow> \<not> isToday a b"
  by (auto simp: dayBefore_def isToday_def isSameDay_def)

text \<open>
  The extra disjunct \<^verbatim>\<open>hour < now.getHours()\<close> of the appointment dialog never fires:
  the loop starts at or after the current hour. The two generators agree everywhere.
\<close>

lemma generators_agree:
  "AppointmentScheduler_generateTimeSlots now sel = AddEventModal_generateTimeSlots now sel"
  unfolding AppointmentScheduler_generateTimeSlots_def AddEventModal_generateTimeSlots_def Let_def
  by (intro arg_cong[where f=concat] map_cong refl) (auto split: if_splits)

lemma AddEventModal_shape:
  "\<exists>s keep. 9 \<le> s \<and>
     AddEventModal_generateTimeSlots now sel = map (slotAt sel) (filter keep (halfHours s 17))"
proof -
  define s where "s = (if isToday now sel then
               (let currentHour = getHours now; currentMinute = getMinutes now in
                if currentHour \<ge> 9 then
                  (if currentMinute \<ge> 30 then currentHour + 1 else currentHour)
                else 9)
             else 9)"
  have "9 \<le> s" by (simp add: s_def Let_def)
  moreover have "AddEventModal_generateTimeSlots now sel =
      map (slotAt sel) (filter (\<lambda>hm. \<not> (isToday now sel \<and> fst hm = s \<and> snd hm < getMinutes now
                                         \<and> getMinutes now > 30)) (halfHours s 17))"
    unfolding AddEventModal_generateTimeSlots_def Let_def s_def halfHours_def
    by (rule loops_as_filter)
  ultimately show ?thesis by blast
qed

lemma isBefore_slotAt:
  "fst a * 60 + snd a < fst b * 60 + snd b \<Longrightarrow> isBefore (slotAt d a) (slotAt d b)"
  by (simp add: isBefore_def isSameDay_def milliOfDay_def minuteOfDay_def slotAt_def setHours_def)

lemma slots_shape_window:
  assumes "9 \<le> s"
  shows "\<forall>x \<in> set (map (slotAt sel) (filter keep (halfHours s 17))).
            (getMinutes x = 0 \<or> getMinutes x = 30) \<and> 9 \<le> getHours x \<and> getHours x \<le> 16"
  using assms by (auto simp: set_halfHours slotAt_def setHours_def)

lemma slots_shape_sorted:
  "sorted_wrt isBefore (map (slotAt sel) (filter keep (halfHours s 17)))"
proof -
  have "sorted_wrt (\<lambda>a b. fst a * 60 + snd a < fst b * 60 + snd b) (filter keep (halfHours s 17))"
    by (rule sorted_wrt_filter[OF sorted_halfHours])
  then have "sorted_wrt (\<lambda>a b. isBefore (slotAt sel a) (slotAt sel b)) (filter keep (halfHours s 17))"
    by (rule sorted_wrt_mono_rel[rotated]) (simp add: isBefore_slotAt)
  then show ?thesis by (simp add: sorted_wrt_map)
qed

text \<open>
  C9. Whatever the selected date and the current time, every slot of either generator
  has minute 0 or 30 and hour between 9 and 16, and the slots are strictly increasing
  in time.
\<close>

theorem slots_in_window_increasing:
  "(\<forall>x \<in> set (AppointmentScheduler_generateTimeSlots now selectedDate).
      (getMinutes x = 0 \<or> getMinutes x = 30) \<and> 9 \<le> getHours x \<and> getHours x \<le> 16)
   \<and> sorted_wrt isBefore (AppointmentScheduler_generateTimeSlots now selectedDate)
   \<and> (\<forall>x \<in> set (AddEventModal_generateTimeSlots now selectedDate).
      (getMinutes x = 0 \<or> getMinutes x = 30) \<and> 9 \<le> getHours x \<and> getHours x \<le> 16)
   \<and> sorted_wrt isBefore (AddEventModal_generateTimeSlots now selectedDate)"
proof -
  obtain s keep where s: "9 \<le> s"
    and eq: "AddEventModal_generateTimeSlots now selectedDate =
             map (slotAt selectedDate) (filter keep (halfHours s 17))"
    using AddEventModal_shape by blast
  have w: "\<forall>x \<in> set (AddEventModal_generateTimeSlots now selectedDate).
      (getMinutes x = 0 \<or> getMinutes x = 30) \<and> 9 \<le> getHours x \<and> getHours x \<le> 16"
    unfolding eq by (rule slots_shape_window[OF s])
  have i: "sorted_wrt isBefore (AddEventModal_generateTimeSlots now selectedDate)"
    unfolding eq by (rule slots_shape_sorted)
  show ?thesis using w i by (simp add: generators_agree)
qed

theorem slots_in_window_increasing_witness:
  "AppointmentScheduler_generateTimeSlots (atTime june1 15 10) june1
     = [atTime june1 15 0, atTime june1 15 30, atTime june1 16 0, atTime june1 16 30]
   \<and> isBefore (atTime june1 15 0) (atTime june1 15 30)
   \<and> isBefore (atTime june1 15 30) (atTime june1 16 0)
   \<and> isBefore (atTime june1 16 0) (atTime june1 16 30)
   \<and> getHours (atTime june1 16 30) = 16 \<and> getMinutes (atTime june1 16 30) = 30"
  using slots_in_window_increasing [of "atTime june1 15 10" june1]
  by (simp add: AppointmentScheduler_generateTimeSlots_def june1_def atTime_def setHours_def
      isToday_def isSameDay_def upt_rec)

text \<open>
  C5. For a date strictly after today, both generators return exactly the sixteen slots
  09:00, 09:30, \<dots>, 16:30 of that date, in ascending order.
\<close>

theorem future_date_all_slots:
  assumes "dayBefore now selectedDate"
  shows "AppointmentScheduler_generateTimeSlots now selectedDate
           = map (\<lambda>(h, m). setHours selectedDate h m 0 0) fullDay
       \<and> AddEventModal_generateTimeSlots now selectedDate
           = map (\<lambda>(h, m). setHours selectedDate h m 0 0) fullDay
       \<and> length (AppointmentScheduler_generateTimeSlots now selectedDate) = 16
       \<and> map hourMinute (AppointmentScheduler_generateTimeSlots now selectedDate) = fullDay"
proof -
  have nt: "\<not> isToday now selectedDate"
    using assms dayBefore_not_today by blast
  have f: "slotAt selectedDate = (\<lambda>(h, m). setHours selectedDate h m 0 0)"
    by (auto simp: slotAt_def)
  show ?thesis
    using AppointmentScheduler_other_day[OF nt] AddEventModal_other_day[OF nt]
    by (simp add: f) (simp add: fullDay_def hourMinute_def setHours_def)
qed

theorem future_date_all_slots_witness:
  "dayBefore (atTime june1 16 45) june2
   \<and> map hourMinute (AppointmentScheduler_generateTimeSlots (atTime june1 16 45) june2) = fullDay
   \<and> map hourMinute (AddEventModal_generateTimeSlots (atTime june1 16 45) june2) = fullDay
   \<and> length (AppointmentScheduler_generateTimeSlots (atTime june1 16 45) june2) = 16"
proof -
  have h: "dayBefore (atTime june1 16 45) june2"
    by (simp add: dayBefore_def atTime_def setHours_def june1_def june2_def)
  show ?thesis
    using h future_date_all_slots [OF h] by (simp add: fullDay_def hourMinute_def setHours_def)
qed

text \<open>
  C3, as the claim states it, fails: for yesterday the generator does not return the
  empty sequence.
\<close>

theorem past_date_slots_counterexample:
  "dayBefore may31 (atTime june1 10 0)
   \<and> AppointmentScheduler_generateTimeSlots (atTime june1 10 0) may31 \<noteq> []
   \<and> AddEventModal_generateTimeSlots (atTime june1 10 0) may31 \<noteq> []"
  by (simp add: AppointmentScheduler_generateTimeSlots_def AddEventModal_generateTimeSlots_def
      dayBefore_def isToday_def isSameDay_def atTime_def setHours_def may31_def june1_def upt_rec)

text \<open>
  C3, amended. For a date strictly before today the generators do not look at the
  current time at all: they return the same sixteen slots 09:00, \<dots>, 16:30 as for
  any other day that is not today.
\<close>

theorem past_date_all_slots:
  assumes "dayBefore selectedDate now"
  shows "AppointmentScheduler_generateTimeSlots now selectedDate
           = map (\<lambda>(h, m). setHours selectedDate h m 0 0) fullDay
       \<and> AddEventModal_generateTimeSlots now selectedDate
           = map (\<lambda>(h, m). setHours selectedDate h m 0 0) fullDay"
proof -
  have nt: "\<not> isToday now selectedDate"
    using assms dayBefore_not_today by blast
  have f: "slotAt selectedDate = (\<lambda>(h, m). setHours selectedDate h m 0 0)"
    by (auto simp: slotAt_def)
  show ?thesis
    using AppointmentScheduler_other_day[OF nt] AddEventModal_other_day[OF nt] by (simp add: f)
qed

theorem past_date_all_slots_witness:
  "dayBefore may31 (atTime june1 10 0)
   \<and> map hourMinute (AppointmentScheduler_generateTimeSlots (atTime june1 10 0) may31) = fullDay
   \<and> map hourMinute (AddEventModal_generateTimeSlots (atTime june1 10 0) may31) = fullDay"
proof -
  have h: "dayBefore may31 (atTime june1 10 0)"
    by (simp add: dayBefore_def atTime_def setHours_def june1_def may31_def)
  show ?thesis
    using h past_date_all_slots [OF h] by (simp add: fullDay_def hourMinute_def setHours_def)
qed

text \<open>
  C2. At 09:15 on the selected day both generators still offer 09:00, which lies before
  the current time, where rounding up to the next half hour gives 09:30. At 09:45 they
  skip 10:00 and 10:30 and start at 11:00, where rounding up gives 10:00.
\<close>

theorem today_first_slot_not_rounded_up:
  "isToday (atTime june1 9 15) june1
   \<and> map hourMinute (AppointmentScheduler_generateTimeSlots (atTime june1 9 15) june1) = fullDay
   \<and> map hourMinute (AddEventModal_generateTimeSlots (atTime june1 9 15) june1) = fullDay
   \<and> isBefore (hd (AppointmentScheduler_generateTimeSlots (atTime june1 9 15) june1)) (atTime june1 9 15)
   \<and> map hourMinute (AppointmentScheduler_generateTimeSlots (atTime june1 9 45) june1) = drop 4 fullDay
   \<and> map hourMinute (AddEventModal_generateTimeSlots (atTime june1 9 45) june1) = drop 4 fullDay"
  by (simp add: AppointmentScheduler_generateTimeSlots_def AddEventModal_generateTimeSlots_def
      isToday_def isSameDay_def atTime_def setHours_def june1_def upt_rec hourMinute_def fullDay_def
      isBefore_def dayBefore_def milliOfDay_def minuteOfDay_def)

section \<open>The persisted date string\<close>

lemma digitChar_0: "digitChar 0 = CHR ''0''"
  by code_simp

lemma digits_lt10: "n < 10 \<Longrightarrow> digits n = [digitChar n]"
  by (subst digits.simps) simp

lemma digits_step: "10 \<le> n \<Longrightarrow> digits n = digits (n div 10) @ [digitChar (n mod 10)]"
  by (subst digits.simps) simp

lemma digits_lt100:
  assumes "10 \<le> n" "n < 100"
  shows "digits n = [digitChar (n div 10), digitChar (n mod 10)]"
proof -
  have "n div 10 < 10" using assms by (simp add: less_mult_imp_div_less)
  then show ?thesis using assms by (simp add: digits_step digits_lt10)
qed

lemma digits_lt1000:
  assumes "100 \<le> n" "n < 1000"
  shows "digits n = [digitChar (n div 100), digitChar (n div 10 mod 10), digitChar (n mod 10)]"
proof -
  have a1: "10 \<le> n div 10" using assms(1) by (simp add: le_div_geq)
  have a2: "n div 10 < 100" using assms(2) by (simp add: less_mult_imp_div_less)
  have b: "n div 10 div 10 = n div 100" by (simp add: div_mult2_eq[symmetric])
  have "digits n = digits (n div 10) @ [digitChar (n mod 10)]"
    using assms by (simp add: digits_step)
  also have "digits (n div 10) = [digitChar (n div 10 div 10), digitChar (n div 10 mod 10)]"
    using a1 a2 by (rule digits_lt100)
  finally show ?thesis by (simp only: b append.simps)
qed

lemma digits_lt10000:
  assumes "1000 \<le> n" "n < 10000"
  shows "digits n = [digitChar (n div 1000), digitChar (n div 100 mod 10),
                     digitChar (n div 10 mod 10), digitChar (n mod 10)]"
proof -
  have a1: "100 \<le> n div 10" using assms(1) by (simp add: le_div_geq)
  have a2: "n div 10 < 1000" using assms(2) by (simp add: less_mult_imp_div_less)
  have b: "n div 10 div 100 = n div 1000" "n div 10 div 10 = n div 100"
    by (simp_all add: div_mult2_eq[symmetric])
  have "digits n = digits (n div 10) @ [digitChar (n mod 10)]"
    using assms by (simp add: digits_step)
  also have "digits (n div 10) = [digitChar (n div 10 div 100), digitChar (n div 10 div 10 mod 10),
                                  digitChar (n div 10 mod 10)]"
    using a1 a2 by (rule digits_lt1000)
  finally show ?thesis by (simp only: b append.simps)
qed

text \<open>Padding a number below 100 to two characters gives its two decimal digits.\<close>

lemma pad2: "n < 100 \<Longrightarrow>
   padStart 2 (CHR ''0'') (Number_toString (int n)) = [digitChar (n div 10), digitChar (n mod 10)]"
  by (cases "n < 10")
     (simp_all add: padStart_def Number_toString_def digits_lt10 digits_lt100 digitChar_0)

lemma isDigit_digitChar: "k < 10 \<Longrightarrow> isDigit (digitChar k)"
  by (simp add: isDigit_def digitChar_def less_eq_char_def)

lemma digitChar_less: "a < 10 \<Longrightarrow> b < 10 \<Longrightarrow> digitChar a < digitChar b \<longleftrightarrow> a < b"
  by (simp add: digitChar_def less_char_def)

lemma digitChar_eq: "a < 10 \<Longrightarrow> b < 10 \<Longrightarrow> digitChar a = digitChar b \<longleftrightarrow> a = b"
  by (simp add: digitChar_def)

text \<open>
  C8. For a selected date with month 1..12 and day 1..31, both dialogs persist the
  decimal year, a hyphen, the month as two digits, a hyphen and the day as two digits,
  taken from \<^verbatim>\<open>getFullYear\<close>, \<^verbatim>\<open>getMonth() + 1\<close> and \<^verbatim>\<open>getDate\<close>. For a four-digit
  year this is a ten-character string of the form \<^verbatim>\<open>YYYY-MM-DD\<close>.
\<close>

theorem persisted_date_format:
  assumes "getMonth d < 12" and "1 \<le> getDate d" and "getDate d \<le> 31"
  shows "handleSchedule_formattedDate d =
           Number_toString (getFullYear d) @
           [CHR ''-'', digitChar ((getMonth d + 1) div 10), digitChar ((getMonth d + 1) mod 10),
            CHR ''-'', digitChar (getDate d div 10), digitChar (getDate d mod 10)]
       \<and> handleAddEvent_formattedDate d = handleSchedule_formattedDate d
       \<and> (1000 \<le> getFullYear d \<and> getFullYear d \<le> 9999 \<longrightarrow>
            Number_toString (getFullYear d) =
              [digitChar (nat (getFullYear d) div 1000), digitChar (nat (getFullYear d) div 100 mod 10),
               digitChar (nat (getFullYear d) div 10 mod 10), digitChar (nat (getFullYear d) mod 10)]
            \<and> length (handleSchedule_formattedDate d) = 10
            \<and> matchesYMD (handleSchedule_formattedDate d))"
proof -
  have m: "getMonth d + 1 < 100" and dd: "getDate d < 100" using assms by simp_all
  have fmt: "handleSchedule_formattedDate d =
           Number_toString (getFullYear d) @
           [CHR ''-'', digitChar ((getMonth d + 1) div 10), digitChar ((getMonth d + 1) mod 10),
            CHR ''-'', digitChar (getDate d div 10), digitChar (getDate d mod 10)]"
    unfolding handleSchedule_formattedDate_def Let_def pad2[OF m] pad2[OF dd] by simp
  have same: "handleAddEvent_formattedDate d = handleSchedule_formattedDate d"
    by (simp add: handleAddEvent_formattedDate_def handleSchedule_formattedDate_def)
  have four: "Number_toString (getFullYear d) =
              [digitChar (nat (getFullYear d) div 1000), digitChar (nat (getFullYear d) div 100 mod 10),
               digitChar (nat (getFullYear d) div 10 mod 10), digitChar (nat (getFullYear d) mod 10)]
            \<and> length (handleSchedule_formattedDate d) = 10
            \<and> matchesYMD (handleSchedule_formattedDate d)"
    if y: "1000 \<le> getFullYear d" "getFullYear d \<le> 9999"
  proof -
    have n: "1000 \<le> nat (getFullYear d)" "nat (getFullYear d) < 10000" using y by simp_all
    have ts: "Number_toString (getFullYear d) =
              [digitChar (nat (getFullYear d) div 1000), digitChar (nat (getFullYear d) div 100 mod 10),
               digitChar (nat (getFullYear d) div 10 mod 10), digitChar (nat (getFullYear d) mod 10)]"
      using y by (simp only: Number_toString_def digits_lt10000[OF n]) simp
    have q: "nat (getFullYear d) div 1000 < 10" using n(2) by (simp add: less_mult_imp_div_less)
    have k: "(getMonth d + 1) div 10 < 10" "getDate d div 10 < 10"
      using m dd by (simp_all add: less_mult_imp_div_less)
    have "matchesYMD (handleSchedule_formattedDate d)"
      unfolding fmt ts using q k by (simp add: matchesYMD_def isDigit_digitChar)
    moreover have "length (handleSchedule_formattedDate d) = 10"
      unfolding fmt ts by simp
    ultimately show ?thesis using ts by simp
  qed
  show ?thesis using fmt same four by blast
qed

theorem persisted_date_format_witness:
  "getMonth june1 < 12 \<and> 1 \<le> getDate june1 \<and> getDate june1 \<le> 31
   \<and> handleSchedule_formattedDate june1 = ''2024-06-01''
   \<and> handleAddEvent_formattedDate june1 = ''2024-06-01''
   \<and> matchesYMD ''2024-06-01''"
proof -
  have h: "getMonth june1 < 12" "1 \<le> getDate june1" "getDate june1 \<le> 31"
    by (simp_all add: june1_def)
  have e: "handleSchedule_formattedDate june1 = ''2024-06-01''"
    by code_simp
  have y: "1000 \<le> getFullYear june1 \<and> getFullYear june1 \<le> 9999"
    by (simp add: june1_def)
  from persisted_date_format [OF h] y
  have a: "handleAddEvent_formattedDate june1 = handleSchedule_formattedDate june1"
    and b: "matchesYMD (handleSchedule_formattedDate june1)" by blast+
  show ?thesis using h a b unfolding e by blast
qed

text \<open>
  The persisted time strings order like the times they denote: on \<^verbatim>\<open>HH:mm\<close> strings
  the character order used for \<^verbatim>\<open>localeCompare\<close> is the order of the minute of the day.
\<close>

lemma two_digit_order:
  fixes a b :: nat
  shows "(a div 10 < b div 10 \<or> (a div 10 = b div 10 \<and> a mod 10 \<le> b mod 10)) \<longleftrightarrow> a \<le> b"
proof -
  have a: "a = 10 * (a div 10) + a mod 10" by simp
  have b: "b = 10 * (b div 10) + b mod 10" by simp
  have "a mod 10 < 10" "b mod 10 < 10" by simp_all
  then show ?thesis using a b by linarith
qed

lemma two_digit_less:
  fixes a b :: nat
  shows "(a div 10 < b div 10 \<or> (a div 10 = b div 10 \<and> a mod 10 < b mod 10)) \<longleftrightarrow> a < b"
proof -
  have a: "a = 10 * (a div 10) + a mod 10" by simp
  have b: "b = 10 * (b div 10) + b mod 10" by simp
  have "a mod 10 < 10" "b mod 10 < 10" by simp_all
  then show ?thesis using a b by linarith
qed

lemma two_digit_eq:
  fixes a b :: nat
  shows "(a div 10 = b div 10 \<and> a mod 10 = b mod 10) \<longleftrightarrow> a = b"
  by (metis div_mult_mod_eq)

lemma five_char_le:
  assumes "a1 < 10" "a2 < 10" "a3 < 10" "a4 < 10" "b1 < 10" "b2 < 10" "b3 < 10" "b4 < 10"
  shows "[digitChar a1, digitChar a2, c, digitChar a3, digitChar a4]
           \<le> [digitChar b1, digitChar b2, c, digitChar b3, digitChar b4]
         \<longleftrightarrow> (a1 < b1 \<or> a1 = b1 \<and> (a2 < b2 \<or> a2 = b2 \<and>
                (a3 < b3 \<or> a3 = b3 \<and> (a4 < b4 \<or> a4 = b4))))"
  by (simp add: digitChar_less digitChar_eq assms)

lemma hour_minute_order:
  fixes ha hb ma mb :: nat
  assumes "ma < 60" "mb < 60"
  shows "(ha < hb \<or> ha = hb \<and> ma \<le> mb) \<longleftrightarrow> ha * 60 + ma \<le> hb * 60 + mb"
proof (cases "ha < hb")
  case True
  then show ?thesis using assms by linarith
next
  case False
  then show ?thesis using assms by (cases "ha = hb") simp_all
qed

lemma format_HHmm_le:
  assumes "getHours a < 24" "getMinutes a < 60" "getHours b < 24" "getMinutes b < 60"
  shows "format_HHmm a \<le> format_HHmm b \<longleftrightarrow> minuteOfDay a \<le> minuteOfDay b"
proof -
  have lt: "getHours a < 100" "getMinutes a < 100" "getHours b < 100" "getMinutes b < 100"
    using assms by simp_all
  have k: "getHours a div 10 < 10" "getHours a mod 10 < 10"
    "getMinutes a div 10 < 10" "getMinutes a mod 10 < 10"
    "getHours b div 10 < 10" "getHours b mod 10 < 10"
    "getMinutes b div 10 < 10" "getMinutes b mod 10 < 10"
    using lt by (simp_all add: less_mult_imp_div_less)
  have fa: "format_HHmm a = [digitChar (getHours a div 10), digitChar (getHours a mod 10), CHR '':'',
      digitChar (getMinutes a div 10), digitChar (getMinutes a mod 10)]"
    by (simp add: format_HHmm_def pad2[OF lt(1)] pad2[OF lt(2)])
  have fb: "format_HHmm b = [digitChar (getHours b div 10), digitChar (getHours b mod 10), CHR '':'',
      digitChar (getMinutes b div 10), digitChar (getMinutes b mod 10)]"
    by (simp add: format_HHmm_def pad2[OF lt(3)] pad2[OF lt(4)])
  have "format_HHmm a \<le> format_HHmm b \<longleftrightarrow>
      (getHours a div 10 < getHours b div 10 \<or> getHours a div 10 = getHours b div 10 \<and>
        (getHours a mod 10 < getHours b mod 10 \<or> getHours a mod 10 = getHours b mod 10 \<and>
          (getMinutes a div 10 < getMinutes b div 10 \<or> getMinutes a div 10 = getMinutes b div 10 \<and>
             (getMinutes a mod 10 < getMinutes b mod 10 \<or> getMinutes a mod 10 = getMinutes b mod 10))))"
    unfolding fa fb by (rule five_char_le[OF k])
  also have "\<dots> \<longleftrightarrow>
      (getHours a div 10 < getHours b div 10 \<or> getHours a div 10 = getHours b div 10 \<and>
        (getHours a mod 10 < getHours b mod 10 \<or> getHours a mod 10 = getHours b mod 10 \<and>
          getMinutes a \<le> getMinutes b))"
    using two_digit_order[of "getMinutes a" "getMinutes b"] by (simp only: le_less)
  also have "\<dots> \<longleftrightarrow>
      getHours a < getHours b \<or> (getHours a = getHours b \<and> getMinutes a \<le> getMinutes b)"
    using two_digit_less[of "getHours a" "getHours b"] two_digit_eq[of "getHours a" "getHours b"]
    by blast
  also have "\<dots> \<longleftrightarrow> minuteOfDay a \<le> minuteOfDay b"
    unfolding minuteOfDay_def by (rule hour_minute_order[OF assms(2) assms(4)])
  finally show ?thesis .
qed

lemma localeCompare_HHmm:
  assumes "getHours a < 24" "getMinutes a < 60" "getHours b < 24" "getMinutes b < 60"
  shows "localeCompare (format_HHmm a) (format_HHmm b) \<le> 0 \<longleftrightarrow> minuteOfDay a \<le> minuteOfDay b"
  using format_HHmm_le[OF assms] by (auto simp: localeCompare_def)

text \<open>
  Every persisted \<^verbatim>\<open>HH:mm\<close> string is the formatted form of a time of day, so on such
  strings the comparison made by \<^verbatim>\<open>localeCompare\<close> is the comparison of the times.
\<close>

lemma isDigit_value:
  assumes "isDigit c"
  shows "digitValue c < 10 \<and> digitChar (digitValue c) = c"
proof -
  have r: "48 \<le> (of_char c :: nat)" "(of_char c :: nat) \<le> 57"
    using assms by (simp_all add: isDigit_def less_eq_char_def)
  then have "(of_char c :: nat) - 48 < 10" by linarith
  moreover have "48 + ((of_char c :: nat) - 48) = of_char c" using r(1) by linarith
  then have "char_of (48 + ((of_char c :: nat) - 48)) = c" by simp
  ultimately show ?thesis by (simp add: digitValue_def digitChar_def)
qed

lemma length5: "length s = 5 \<Longrightarrow> s = [s ! 0, s ! 1, s ! 2, s ! 3, s ! 4]"
  by (rule nth_equalityI) (auto simp: nth_Cons' less_Suc_eq eval_nat_numeral)

lemma two_digits_of:
  "a < 10 \<Longrightarrow> (b::nat) < 10 \<Longrightarrow> (a * 10 + b) div 10 = a \<and> (a * 10 + b) mod 10 = b"
  by simp

lemma isHHmm_format:
  assumes "isHHmm s"
  shows "\<exists>t. getHours t < 24 \<and> getMinutes t < 60 \<and> s = format_HHmm t
             \<and> minuteOfDay t = timeOfDay s"
proof -
  define h where "h = digitValue (s ! 0) * 10 + digitValue (s ! 1)"
  define m where "m = digitValue (s ! 3) * 10 + digitValue (s ! 4)"
  define t where "t = \<lparr>getFullYear = 0, getMonth = 0, getDate = 1, getHours = h, getMinutes = m,
                       getSeconds = 0, getMilliseconds = 0\<rparr>"
  from assms have len: "length s = 5" and c: "s ! 2 = CHR '':''"
    and d: "isDigit (s ! 0)" "isDigit (s ! 1)" "isDigit (s ! 3)" "isDigit (s ! 4)"
    and hm: "h < 24" "m < 60"
    by (simp_all add: isHHmm_def h_def m_def)
  have v: "digitValue (s ! 0) < 10" "digitValue (s ! 1) < 10"
      "digitValue (s ! 3) < 10" "digitValue (s ! 4) < 10"
    and ch: "digitChar (digitValue (s ! 0)) = s ! 0" "digitChar (digitValue (s ! 1)) = s ! 1"
      "digitChar (digitValue (s ! 3)) = s ! 3" "digitChar (digitValue (s ! 4)) = s ! 4"
    using d isDigit_value by blast+
  have hd: "h div 10 = digitValue (s ! 0)" "h mod 10 = digitValue (s ! 1)"
    unfolding h_def using two_digits_of[OF v(1) v(2)] by blast+
  have md: "m div 10 = digitValue (s ! 3)" "m mod 10 = digitValue (s ! 4)"
    unfolding m_def using two_digits_of[OF v(3) v(4)] by blast+
  have h100: "getHours t < 100" "getMinutes t < 100" using hm by (simp_all add: t_def)
  have "format_HHmm t = [s ! 0, s ! 1, CHR '':'', s ! 3, s ! 4]"
    unfolding format_HHmm_def pad2[OF h100(1)] pad2[OF h100(2)]
    using ch by (simp add: t_def hd md)
  also have "\<dots> = s" using length5[OF len] c by simp
  finally have "s = format_HHmm t" by simp
  moreover have "minuteOfDay t = timeOfDay s"
    by (simp add: minuteOfDay_def timeOfDay_def t_def h_def m_def)
  ultimately show ?thesis using hm by (intro exI[of _ t]) (simp add: t_def)
qed

lemma isHHmm_le:
  assumes "isHHmm a" "isHHmm b"
  shows "a \<le> b \<longleftrightarrow> timeOfDay a \<le> timeOfDay b"
proof -
  obtain ta where ta: "getHours ta < 24" "getMinutes ta < 60" "a = format_HHmm ta"
    "minuteOfDay ta = timeOfDay a"
    using isHHmm_format[OF assms(1)] by blast
  obtain tb where tb: "getHours tb < 24" "getMinutes tb < 60" "b = format_HHmm tb"
    "minuteOfDay tb = timeOfDay b"
    using isHHmm_format[OF assms(2)] by blast
  show ?thesis
    using format_HHmm_le[OF ta(1) ta(2) tb(1) tb(2)] ta(3,4) tb(3,4) by simp
qed

lemma isHHmm_eq:
  assumes "isHHmm a" "isHHmm b" "timeOfDay a = timeOfDay b"
  shows "a = b"
  using isHHmm_le[OF assms(1,2)] isHHmm_le[OF assms(2,1)] assms(3) by simp

lemma localeCompare_isHHmm:
  assumes "isHHmm a" "isHHmm b"
  shows "localeCompare a b \<le> 0 \<longleftrightarrow> timeOfDay a \<le> timeOfDay b"
    and "localeCompare a b = 0 \<longleftrightarrow> timeOfDay a = timeOfDay b"
proof -
  have ab: "a \<le> b \<longleftrightarrow> timeOfDay a \<le> timeOfDay b" by (rule isHHmm_le[OF assms])
  have ba: "b \<le> a \<longleftrightarrow> timeOfDay b \<le> timeOfDay a" by (rule isHHmm_le[OF assms(2) assms(1)])
  show "localeCompare a b \<le> 0 \<longleftrightarrow> timeOfDay a \<le> timeOfDay b"
    using ab by (auto simp: localeCompare_def)
  show "localeCompare a b = 0 \<longleftrightarrow> timeOfDay a = timeOfDay b"
    using ab ba by (auto simp: localeCompare_def)
qed

section \<open>Properties of the validators\<close>

text \<open>
  C6. Today at 09:15, a timed event whose time is 09:00 passes \<^verbatim>\<open>validateForm\<close> with no
  error at all, although its date and time lie before the current instant; the
  appointment dialog's \<^verbatim>\<open>validateInputs\<close> rejects the same date and time.
\<close>

theorem event_past_time_not_rejected:
  "isToday (atTime june1 9 15) june1
   \<and> isBefore (atTime june1 9 0) (atTime june1 9 15)
   \<and> validateForm (atTime june1 9 15) eventForm ''time'' = None
   \<and> validateForm (atTime june1 9 15) eventForm ''date'' = None
   \<and> validateForm (atTime june1 9 15) eventForm ''title'' = None
   \<and> validateForm (atTime june1 9 15) eventForm ''location'' = None
   \<and> validateForm (atTime june1 9 15) eventForm ''recurrence'' = None
   \<and> validateInputs (atTime june1 9 15) appointmentForm ''time'' = Some ''Time cannot be in the past''"
  by (simp add: validateForm_def validateInputs_def eventForm_def appointmentForm_def
      AE_requiredText_def AE_dateValidation_def AE_timeValidation_def AE_recurrenceValidation_def
      AS_requiredText_def AS_dateValidation_def AS_timeValidation_def AS_recurrenceValidation_def
      AS_recurrenceEndValidation_def AS_durationValidation_def
      atTime_def setHours_def june1_def isToday_def isSameDay_def isBefore_def dayBefore_def
      milliOfDay_def minuteOfDay_def startOfDay_def trim_def isWhiteSpace_def falsy_def)

text \<open>
  Which steps can write the \<^verbatim>\<open>time\<close> entry: only the time validation of either dialog.
\<close>

lemma AS_timeValidation_time:
  "AS_timeValidation now st errs ''time'' =
     (case AppointmentSchedulerState.time st of
        Null \<Rightarrow> Some ''Time is required''
      | InvalidDate \<Rightarrow> Some ''Valid time is required''
      | ValidDate t \<Rightarrow>
          if selectedTimeSlot st = Null \<and> \<not> showManualTimeInput st
          then Some ''Please select a time slot''
          else (case AppointmentSchedulerState.date st of
                  ValidDate d \<Rightarrow>
                    if isToday now d \<and> isBefore (d\<lparr>getHours := getHours t, getMinutes := getMinutes t\<rparr>) now
                    then Some ''Time cannot be in the past'' else errs ''time''
                | _ \<Rightarrow> errs ''time''))"
  by (auto simp: AS_timeValidation_def Let_def split: DateValue.splits)

lemma AS_other_steps_time:
  "AS_requiredText st errs ''time'' = errs ''time''"
  "AS_dateValidation now st errs ''time'' = errs ''time''"
  "AS_recurrenceValidation st errs ''time'' = errs ''time''"
  "AS_recurrenceEndValidation st errs ''time'' = errs ''time''"
  "AS_durationValidation st errs ''time'' = errs ''time''"
  by (simp_all add: AS_requiredText_def AS_dateValidation_def AS_recurrenceValidation_def
      AS_recurrenceEndValidation_def AS_durationValidation_def Let_def split: DateValue.split)

text \<open>
  The appointment dialog does perform the check: with a valid date and time and a slot
  chosen, it reports a time error exactly when the date is today and the date with the
  chosen hour and minute lies before now.
\<close>

lemma validateInputs_time_error:
  assumes "AppointmentSchedulerState.date st = ValidDate d"
    and "AppointmentSchedulerState.time st = ValidDate t"
    and "selectedTimeSlot st \<noteq> Null \<or> showManualTimeInput st"
  shows "validateInputs now st ''time'' \<noteq> None \<longleftrightarrow>
           isToday now d \<and> isBefore (d\<lparr>getHours := getHours t, getMinutes := getMinutes t\<rparr>) now"
  using assms
  by (auto simp: validateInputs_def Let_def AS_other_steps_time AS_timeValidation_time)

lemma AE_other_steps_time:
  "AE_requiredText st errs ''time'' = errs ''time''"
  "AE_dateValidation now st errs ''time'' = errs ''time''"
  "AE_recurrenceValidation st errs ''time'' = errs ''time''"
  by (simp_all add: AE_requiredText_def AE_dateValidation_def AE_recurrenceValidation_def
      Let_def split: DateValue.split)

text \<open>The event dialog never does: a valid time is accepted whatever the clock says.\<close>

lemma validateForm_time_error:
  "validateForm now st ''time'' \<noteq> None \<longleftrightarrow>
     \<not> AddEventModalState.isAllDay st \<and> (AddEventModalState.time st = Null \<or> AddEventModalState.time st = InvalidDate)"
  by (auto simp: validateForm_def Let_def AE_other_steps_time AE_timeValidation_def split: DateValue.splits)

text \<open>
  Both dialogs reject a date that lies before today; the slot generators are never asked
  to leave such a date out.
\<close>

lemma AS_later_steps_date:
  "AS_timeValidation now st errs ''date'' = errs ''date''"
  "AS_recurrenceValidation st errs ''date'' = errs ''date''"
  "AS_recurrenceEndValidation st errs ''date'' = errs ''date''"
  "AS_durationValidation st errs ''date'' = errs ''date''"
  by (simp_all add: AS_timeValidation_def AS_recurrenceValidation_def
      AS_recurrenceEndValidation_def AS_durationValidation_def Let_def split: DateValue.split)

lemma AE_later_steps_date:
  "AE_timeValidation st errs ''date'' = errs ''date''"
  "AE_recurrenceValidation st errs ''date'' = errs ''date''"
  by (simp_all add: AE_timeValidation_def AE_recurrenceValidation_def split: DateValue.split)

lemma dayBefore_startOfDay: "dayBefore d now \<Longrightarrow> isBefore d (startOfDay now) \<and> isBefore d now"
  by (simp add: isBefore_def dayBefore_def startOfDay_def setHours_def)

lemma past_date_rejected:
  assumes "dayBefore d now"
  shows "AppointmentSchedulerState.date st = ValidDate d
           \<Longrightarrow> validateInputs now st ''date'' = Some ''Date cannot be in the past''"
    and "AddEventModalState.date st' = ValidDate d
           \<Longrightarrow> validateForm now st' ''date'' = Some ''Date cannot be in the past''"
  using dayBefore_startOfDay[OF assms] dayBefore_not_today[of now d] assms
  by (simp_all add: validateInputs_def validateForm_def Let_def AS_later_steps_date AE_later_steps_date
      AS_dateValidation_def AE_dateValidation_def)

section \<open>Properties of the month markers\<close>

lemma dotsOn_addDot:
  "dotsOn (addDot marked k dot) d = (if d = k then dotsOn marked d @ [dot] else dotsOn marked d)"
  by (simp add: dotsOn_def addDot_def split: option.splits)

lemma dotsOn_markEvents:
  "dotsOn (foldl (markEvent L rf) marked es) d =
     dotsOn marked d @ map (eventDot L)
       (filter (\<lambda>e. Event.status e \<noteq> ''cancelled'' \<and> formatDateString rf (Event.date e) = d) es)"
  by (induction es arbitrary: marked) (auto simp: markEvent_def dotsOn_addDot)

lemma dotsOn_markAppointments:
  "dotsOn (foldl (markAppointment L rf) marked as) d =
     dotsOn marked d @ map (appointmentDot L)
       (filter (\<lambda>a. formatDateString rf (Appointment.date a) = d) as)"
  by (induction as arbitrary: marked) (auto simp: markAppointment_def dotsOn_addDot)

lemma dotsOn_updateMarkedDates:
  "dotsOn (updateMarkedDates L cp rf sel es as) d =
     map (eventDot L)
       (filter (\<lambda>e. Event.status e \<noteq> ''cancelled'' \<and> formatDateString rf (Event.date e) = d) es)
     @ map (appointmentDot L) (filter (\<lambda>a. formatDateString rf (Appointment.date a) = d) as)"
proof -
  let ?m = "foldl (markAppointment L rf) (foldl (markEvent L rf) Map.empty es) as"
  have "dotsOn (updateMarkedDates L cp rf sel es as) d = dotsOn ?m d"
    by (simp add: updateMarkedDates_def Let_def dotsOn_def split: option.splits)
  also have "\<dots> = dotsOn Map.empty d @ map (eventDot L)
       (filter (\<lambda>e. Event.status e \<noteq> ''cancelled'' \<and> formatDateString rf (Event.date e) = d) es)
     @ map (appointmentDot L) (filter (\<lambda>a. formatDateString rf (Appointment.date a) = d) as)"
    by (simp only: dotsOn_markAppointments dotsOn_markEvents append_assoc)
  also have "dotsOn Map.empty d = []" by (simp add: dotsOn_def)
  finally show ?thesis by simp
qed

lemma selected_entry:
  "\<exists>m. updateMarkedDates L cp rf sel es as sel = Some m \<and> Marking.selected m
        \<and> selectedColor m = Some (cp @ ''80'') \<and> selectedTextColor m = Some ''#ffffff''
        \<and> dots m = dotsOn (updateMarkedDates L cp rf sel es as) sel"
  by (simp add: updateMarkedDates_def Let_def dotsOn_def split: option.splits)





text \<open>
  One call of \<^verbatim>\<open>updateMarkedDates\<close> always writes an entry for the selected date it
  reads, marked as selected, with an empty dot list when nothing of the two lists falls
  on that date; and it writes no entry for any other date on which nothing falls.
\<close>

lemma updateMarkedDates_marks_selected:
  "\<exists>m. updateMarkedDates L cp rf sel eventsList appointmentsList sel = Some m \<and> Marking.selected m \<and>
     ((\<forall>e \<in> set eventsList. Event.status e \<noteq> ''cancelled''
           \<longrightarrow> formatDateString rf (Event.date e) \<noteq> sel) \<and>
      (\<forall>a \<in> set appointmentsList. formatDateString rf (Appointment.date a) \<noteq> sel)
       \<longrightarrow> dots m = [])"
proof -
  obtain m where m: "updateMarkedDates L cp rf sel eventsList appointmentsList sel = Some m"
    "Marking.selected m"
    "dots m = dotsOn (updateMarkedDates L cp rf sel eventsList appointmentsList) sel"
    using selected_entry by blast
  have "dots m = []"
    if "\<forall>e \<in> set eventsList. Event.status e \<noteq> ''cancelled''
           \<longrightarrow> formatDateString rf (Event.date e) \<noteq> sel"
      and "\<forall>a \<in> set appointmentsList. formatDateString rf (Appointment.date a) \<noteq> sel"
    using that by (auto simp: m(3) dotsOn_updateMarkedDates filter_empty_conv)
  with m show ?thesis by blast
qed

lemma addDot_None: "addDot marked k dot d = None \<longleftrightarrow> d \<noteq> k \<and> marked d = None"
  by (simp add: addDot_def split: option.splits)

lemma markEvents_None:
  "foldl (markEvent L rf) marked es d = None \<longleftrightarrow>
     marked d = None \<and>
     (\<forall>e \<in> set es. Event.status e \<noteq> ''cancelled'' \<longrightarrow> formatDateString rf (Event.date e) \<noteq> d)"
  by (induction es arbitrary: marked) (auto simp: markEvent_def addDot_None)

lemma markAppointments_None:
  "foldl (markAppointment L rf) marked as d = None \<longleftrightarrow>
     marked d = None \<and> (\<forall>a \<in> set as. formatDateString rf (Appointment.date a) \<noteq> d)"
  by (induction as arbitrary: marked) (auto simp: markAppointment_def addDot_None)

lemma updateMarkedDates_None:
  "updateMarkedDates L cp rf sel es as d = None \<longleftrightarrow>
     d \<noteq> sel \<and>
     (\<forall>e \<in> set es. Event.status e \<noteq> ''cancelled'' \<longrightarrow> formatDateString rf (Event.date e) \<noteq> d) \<and>
     (\<forall>a \<in> set as. formatDateString rf (Appointment.date a) \<noteq> d)"
proof -
  let ?m = "foldl (markAppointment L rf) (foldl (markEvent L rf) Map.empty es) as"
  have "updateMarkedDates L cp rf sel es as d = None \<longleftrightarrow> d \<noteq> sel \<and> ?m d = None"
    by (simp add: updateMarkedDates_def Let_def split: option.splits)
  then show ?thesis by (simp add: markAppointments_None markEvents_None)
qed

text \<open>
  Pressing another day changes the selection and leaves the marker map as it was. A
  snapshot that arrives afterwards recomputes the map with the selection of the render
  that registered the listeners: that date gets the selected entry, and the date
  selected now gets no entry at all when nothing falls on it.
\<close>

lemma onDayPress_other_day:
  "CalendarScreenState.selected st \<noteq> day \<Longrightarrow>
     onDayPress accent day st = st\<lparr>CalendarScreenState.selected := day\<rparr>"
  by (simp add: onDayPress_def)

lemma snapshot_marks_registration_selection:
  assumes "CalendarScreenState.selected st \<noteq> CalendarScreenState.selected render"
    and "\<forall>e \<in> set eventsList. Event.status e \<noteq> ''cancelled''
           \<longrightarrow> formatDateString rf (Event.date e) \<noteq> CalendarScreenState.selected st"
    and "\<forall>a \<in> set (appointments render).
           formatDateString rf (Appointment.date a) \<noteq> CalendarScreenState.selected st"
  shows "markedDates (listenToEvents_callback L cp rf render eventsList st)
           (CalendarScreenState.selected st) = None"
    and "\<exists>m. markedDates (listenToEvents_callback L cp rf render eventsList st)
           (CalendarScreenState.selected render) = Some m \<and> Marking.selected m"
proof -
  show "markedDates (listenToEvents_callback L cp rf render eventsList st)
           (CalendarScreenState.selected st) = None"
    using assms by (simp add: listenToEvents_callback_def updateMarkedDates_None)
  show "\<exists>m. markedDates (listenToEvents_callback L cp rf render eventsList st)
           (CalendarScreenState.selected render) = Some m \<and> Marking.selected m"
    using selected_entry[of L cp rf "CalendarScreenState.selected render" eventsList
        "appointments render"]
    by (auto simp: listenToEvents_callback_def)
qed

text \<open>
  C10. The screen mounts on 2024-06-01 and registers its listeners; the user presses
  2024-06-10; then the events listener delivers a snapshot with one event on
  2024-06-01. The selected date is 2024-06-10, the recomputed marker map has no entry
  for it, and the entry marked as selected is the one of 2024-06-01: the snapshot
  update has moved the highlight off the currently selected date.
\<close>

theorem snapshot_marks_stale_selection:
  "CalendarScreenState.selected
      (listenToEvents_callback sampleColors ''#007AFF'' (\<lambda>s. s) (initialState ''2024-06-01'') [lunch]
         (onDayPress ''#4CD964'' ''2024-06-10'' (initialState ''2024-06-01''))) = ''2024-06-10''
   \<and> markedDates
      (listenToEvents_callback sampleColors ''#007AFF'' (\<lambda>s. s) (initialState ''2024-06-01'') [lunch]
         (onDayPress ''#4CD964'' ''2024-06-10'' (initialState ''2024-06-01''))) ''2024-06-10'' = None
   \<and> markedDates
      (listenToEvents_callback sampleColors ''#007AFF'' (\<lambda>s. s) (initialState ''2024-06-01'') [lunch]
         (onDayPress ''#4CD964'' ''2024-06-10'' (initialState ''2024-06-01''))) ''2024-06-01''
       = Some \<lparr>dots = [\<lparr>key = Some ''e4'', color = Some ''#007AFF''\<rparr>], Marking.selected = True,
               selectedColor = Some ''#007AFF80'', selectedTextColor = Some ''#ffffff''\<rparr>"
  by (simp add: listenToEvents_callback_def onDayPress_def initialState_def Let_def
      updateMarkedDates_def markEvent_def addDot_def formatDateString_def matchesYMD_def
      isDigit_def less_eq_char_def eventDot_def orElse_def falsy_def EVENT_COLORS_def
      sampleColors_def lunch_def)

section \<open>Properties of the agenda\<close>

text \<open>The sort returns a permutation of its input whenever it returns.\<close>

lemma insertSorted_mset:
  "insertSorted cmp x ys = Inr zs \<Longrightarrow> mset zs = add_mset x (mset ys)"
  by (induction ys arbitrary: zs) (auto split: sum.splits if_splits)

lemma Array_sort_mset:
  "Array_sort cmp xs = Inr zs \<Longrightarrow> mset zs = mset xs"
  by (induction xs arbitrary: zs) (auto split: sum.splits dest: insertSorted_mset)

lemma insertSorted_stable:
  assumes cmp: "\<And>a b. a \<in> A \<Longrightarrow> b \<in> A \<Longrightarrow> \<exists>c. cmp a b = Inr c \<and> (c \<le> 0 \<longleftrightarrow> le a b)"
    and total: "\<And>a b. a \<in> A \<Longrightarrow> b \<in> A \<Longrightarrow> le a b \<or> le b a"
    and trans: "\<And>a b c. a \<in> A \<Longrightarrow> b \<in> A \<Longrightarrow> c \<in> A \<Longrightarrow> le a b \<Longrightarrow> le b c \<Longrightarrow> le a c"
    and x: "x \<in> A" and ys: "set ys \<subseteq> A"
    and before: "\<forall>y \<in> set ys. S x y"
    and sorted: "sorted_wrt (\<lambda>a b. le a b \<and> (le b a \<longrightarrow> S a b)) ys"
  shows "\<exists>zs. insertSorted cmp x ys = Inr zs \<and> sorted_wrt (\<lambda>a b. le a b \<and> (le b a \<longrightarrow> S a b)) zs"
  using ys before sorted
proof (induction ys)
  case Nil
  show ?case by simp
next
  case (Cons y ys)
  from Cons.prems have yA: "y \<in> A" and ysA: "set ys \<subseteq> A" by auto
  obtain c where c: "cmp x y = Inr c" and cle: "c \<le> 0 \<longleftrightarrow> le x y"
    using cmp[OF x yA] by blast
  show ?case
  proof (cases "c \<le> 0")
    case True
    then have xy: "le x y" using cle by simp
    have "le x w" if "w \<in> set ys" for w
    proof -
      from Cons.prems(3) that have "le y w" by simp
      with xy show ?thesis using trans[OF x yA _ xy] ysA that by blast
    qed
    with xy Cons.prems True c show ?thesis by auto
  next
    case False
    then have nxy: "\<not> le x y" using cle by simp
    then have yx: "le y x" using total[OF x yA] by blast
    from Cons.prems have "\<forall>y \<in> set ys. S x y"
      and "sorted_wrt (\<lambda>a b. le a b \<and> (le b a \<longrightarrow> S a b)) ys" by auto
    with Cons.IH[OF ysA] obtain zs where zs: "insertSorted cmp x ys = Inr zs"
      and szs: "sorted_wrt (\<lambda>a b. le a b \<and> (le b a \<longrightarrow> S a b)) zs" by blast
    have "set zs = insert x (set ys)"
      using insertSorted_mset[OF zs] by (metis set_mset_add_mset_insert set_mset_mset)
    with Cons.prems(3) yx nxy szs have "sorted_wrt (\<lambda>a b. le a b \<and> (le b a \<longrightarrow> S a b)) (y # zs)"
      by auto
    with zs c False show ?thesis by simp
  qed
qed

lemma Array_sort_stable:
  assumes cmp: "\<And>a b. a \<in> A \<Longrightarrow> b \<in> A \<Longrightarrow> \<exists>c. cmp a b = Inr c \<and> (c \<le> 0 \<longleftrightarrow> le a b)"
    and total: "\<And>a b. a \<in> A \<Longrightarrow> b \<in> A \<Longrightarrow> le a b \<or> le b a"
    and trans: "\<And>a b c. a \<in> A \<Longrightarrow> b \<in> A \<Longrightarrow> c \<in> A \<Longrightarrow> le a b \<Longrightarrow> le b c \<Longrightarrow> le a c"
    and xs: "set xs \<subseteq> A"
    and input: "sorted_wrt S xs"
  shows "\<exists>zs. Array_sort cmp xs = Inr zs \<and> sorted_wrt (\<lambda>a b. le a b \<and> (le b a \<longrightarrow> S a b)) zs"
  using xs input
proof (induction xs)
  case Nil
  show ?case by simp
next
  case (Cons x xs)
  then obtain ys where ys: "Array_sort cmp xs = Inr ys"
    and sys: "sorted_wrt (\<lambda>a b. le a b \<and> (le b a \<longrightarrow> S a b)) ys" by auto
  have set_ys: "set ys = set xs"
    using Array_sort_mset[OF ys] by (metis set_mset_mset)
  have "\<exists>zs. insertSorted cmp x ys = Inr zs \<and> sorted_wrt (\<lambda>a b. le a b \<and> (le b a \<longrightarrow> S a b)) zs"
  proof (rule insertSorted_stable[where A = A and le = le and S = S])
    show "\<And>a b. a \<in> A \<Longrightarrow> b \<in> A \<Longrightarrow> \<exists>c. cmp a b = Inr c \<and> (c \<le> 0 \<longleftrightarrow> le a b)" by (rule cmp)
    show "\<And>a b. a \<in> A \<Longrightarrow> b \<in> A \<Longrightarrow> le a b \<or> le b a" by (rule total)
    show "\<And>a b c. a \<in> A \<Longrightarrow> b \<in> A \<Longrightarrow> c \<in> A \<Longrightarrow> le a b \<Longrightarrow> le b c \<Longrightarrow> le a c" by (rule trans)
    show "x \<in> A" using Cons.prems by simp
    show "set ys \<subseteq> A" using Cons.prems set_ys by simp
    show "\<forall>y \<in> set ys. S x y" using Cons.prems set_ys by simp
    show "sorted_wrt (\<lambda>a b. le a b \<and> (le b a \<longrightarrow> S a b)) ys" by (rule sys)
  qed
  with ys show ?case by simp
qed

lemma compareItems_rankLe:
  assumes "hasTime a" "hasTime b"
  shows "\<exists>c. compareItems a b = Inr c \<and> (c \<le> 0 \<longleftrightarrow> rankLe a b)"
  using assms
  by (auto simp: compareItems_def rankLe_def hasTime_def timeLe_def localeCompare_def)

lemma rankLe_total: "hasTime a \<Longrightarrow> hasTime b \<Longrightarrow> rankLe a b \<or> rankLe b a"
  by (auto simp: rankLe_def hasTime_def timeLe_def)

lemma rankLe_trans: "rankLe a b \<Longrightarrow> rankLe b c \<Longrightarrow> rankLe a c"
  by (auto simp: rankLe_def timeLe_def split: option.splits)

lemma stable_imp_agendaOrderByString:
  assumes "hasTime a" "hasTime b" "rankLe a b \<and> (rankLe b a \<longrightarrow> eventsFirst a b)"
  shows "agendaOrderByString a b"
  using assms
  by (auto simp: agendaOrderByString_def rankLe_def hasTime_def timeLe_def eventsFirst_def split: option.splits)

lemma combined_eventsFirst:
  "sorted_wrt eventsFirst (map EventItem es @ map AppointmentItem as)"
proof -
  have "sorted_wrt (\<lambda>a b. True) zs" for zs :: "'z list"
    by (induction zs) auto
  then show ?thesis
    by (auto simp: sorted_wrt_append sorted_wrt_map eventsFirst_def)
qed


text \<open>
  The array handed to the sort, and what the sort makes of it when every entry that is
  not all-day has a time.
\<close>

lemma agenda_sorted:
  assumes wf: "\<forall>e \<in> set evs. Event.date e = d \<and> \<not> isAllDay e \<longrightarrow> Event.time e \<noteq> None"
  shows "\<exists>agenda. updateSelectedDateEvents evs apts d = Inr agenda
           \<and> sorted_wrt agendaOrderByString agenda"
proof -
  let ?xs = "map EventItem (filter (\<lambda>event. Event.date event = d) evs)
             @ map AppointmentItem (filter (\<lambda>apt. Appointment.date apt = d) apts)"
  have A: "set ?xs \<subseteq> {i. hasTime i}"
    using wf by (auto simp: hasTime_def)
  have "\<exists>zs. Array_sort compareItems ?xs = Inr zs
          \<and> sorted_wrt (\<lambda>a b. rankLe a b \<and> (rankLe b a \<longrightarrow> eventsFirst a b)) zs"
  proof (rule Array_sort_stable[where A = "{i. hasTime i}"])
    show "\<And>a b. a \<in> {i. hasTime i} \<Longrightarrow> b \<in> {i. hasTime i}
            \<Longrightarrow> \<exists>c. compareItems a b = Inr c \<and> (c \<le> 0 \<longleftrightarrow> rankLe a b)"
      by (simp add: compareItems_rankLe)
    show "\<And>a b. a \<in> {i. hasTime i} \<Longrightarrow> b \<in> {i. hasTime i} \<Longrightarrow> rankLe a b \<or> rankLe b a"
      by (simp add: rankLe_total)
    show "\<And>a b c. a \<in> {i. hasTime i} \<Longrightarrow> b \<in> {i. hasTime i} \<Longrightarrow> c \<in> {i. hasTime i}
            \<Longrightarrow> rankLe a b \<Longrightarrow> rankLe b c \<Longrightarrow> rankLe a c"
      by (rule rankLe_trans)
    show "set ?xs \<subseteq> {i. hasTime i}" by (rule A)
    show "sorted_wrt eventsFirst ?xs" by (rule combined_eventsFirst)
  qed
  then obtain zs where zs: "Array_sort compareItems ?xs = Inr zs"
    and s: "sorted_wrt (\<lambda>a b. rankLe a b \<and> (rankLe b a \<longrightarrow> eventsFirst a b)) zs" by blast
  have "set zs = set ?xs" using Array_sort_mset[OF zs] by (metis set_mset_mset)
  with A have zsA: "\<forall>z \<in> set zs. hasTime z" by blast
  have "sorted_wrt agendaOrderByString zs"
    using s zsA
    by (rule_tac sorted_wrt_mono_rel[where P = "\<lambda>a b. rankLe a b \<and> (rankLe b a \<longrightarrow> eventsFirst a b)"])
       (auto intro: stable_imp_agendaOrderByString)
  with zs show ?thesis by (simp add: updateSelectedDateEvents_def)
qed

lemma agenda_mset:
  assumes "updateSelectedDateEvents evs apts d = Inr agenda"
  shows "mset agenda = mset (map EventItem (filter (\<lambda>event. Event.date event = d) evs))
           + mset (map AppointmentItem (filter (\<lambda>apt. Appointment.date apt = d) apts))"
  using Array_sort_mset[OF assms[unfolded updateSelectedDateEvents_def Let_def]] by simp

text \<open>Which entries of the agenda are not cancelled, and which entities it holds.\<close>

lemma noncancelled_events:
  "filter (\<lambda>i. item_status i \<noteq> ''cancelled'')
     (map EventItem (filter (\<lambda>event. Event.date event = d) es))
   = map EventItem (filter (\<lambda>e. Event.date e = d \<and> Event.status e \<noteq> ''cancelled'') es)"
  by (induction es) simp_all

lemma noncancelled_appointments:
  "filter (\<lambda>i. item_status i \<noteq> ''cancelled'')
     (map AppointmentItem (filter (\<lambda>apt. Appointment.date apt = d) (activeAppointments as)))
   = map AppointmentItem
       (filter (\<lambda>a. Appointment.date a = d \<and> Appointment.status a \<noteq> ''cancelled'') as)"
  by (induction as) (simp_all add: activeAppointments_def)

lemma agenda_items:
  assumes "updateSelectedDateEvents evs apts d = Inr agenda"
  shows "set agenda = EventItem ` {e \<in> set evs. Event.date e = d}
           \<union> AppointmentItem ` {a \<in> set apts. Appointment.date a = d}"
proof -
  have "set agenda = set_mset (mset agenda)" by simp
  also have "\<dots> = set (map EventItem (filter (\<lambda>event. Event.date event = d) evs))
      \<union> set (map AppointmentItem (filter (\<lambda>apt. Appointment.date apt = d) apts))"
    unfolding agenda_mset[OF assms] by simp
  also have "\<dots> = EventItem ` {e \<in> set evs. Event.date e = d}
           \<union> AppointmentItem ` {a \<in> set apts. Appointment.date a = d}"
    by simp
  finally show ?thesis .
qed

text \<open>
  C1, as the claim states it, fails: a weekly recurring event anchored on 2024-01-01 is
  not on the agenda of 2024-01-15.
\<close>

theorem recurring_event_absent_counterexample:
  "Event.isRecurring standup \<and> Event.recurrencePattern standup = Some ''weekly''
   \<and> Event.date standup = ''2024-01-01'' \<and> Event.status standup \<noteq> ''cancelled''
   \<and> agendaForDate [standup] [] ''2024-01-01'' = Inr [EventItem standup]
   \<and> agendaForDate [standup] [] ''2024-01-15'' = Inr []"
  by (simp add: agendaForDate_def updateSelectedDateEvents_def activeAppointments_def standup_def)

text \<open>
  C1, amended. The agenda of a date holds only entries whose own date is that date
  (recurrence rules are not expanded); its non-cancelled entries are exactly the
  non-cancelled events and the non-cancelled appointments dated that day, each once;
  and a cancelled appointment never appears. The agenda exists whenever every event of
  that date that is not all-day has a time.
\<close>

theorem agenda_contents:
  "((\<forall>e \<in> set eventsList. Event.date e = d \<and> \<not> isAllDay e \<longrightarrow> Event.time e \<noteq> None)
      \<longrightarrow> (\<exists>agenda. agendaForDate eventsList appointmentsList d = Inr agenda))
   \<and> (\<forall>agenda. agendaForDate eventsList appointmentsList d = Inr agenda \<longrightarrow>
        (\<forall>i \<in> set agenda. item_date i = d)
        \<and> mset (filter (\<lambda>i. item_status i \<noteq> ''cancelled'') agenda)
            = mset (map EventItem
                     (filter (\<lambda>e. Event.date e = d \<and> Event.status e \<noteq> ''cancelled'') eventsList))
              + mset (map AppointmentItem
                     (filter (\<lambda>a. Appointment.date a = d \<and> Appointment.status a \<noteq> ''cancelled'')
                        appointmentsList))
        \<and> (\<forall>a. AppointmentItem a \<in> set agenda \<longrightarrow> Appointment.status a \<noteq> ''cancelled''))"
proof -
  have total: "\<exists>agenda. agendaForDate eventsList appointmentsList d = Inr agenda"
    if "\<forall>e \<in> set eventsList. Event.date e = d \<and> \<not> isAllDay e \<longrightarrow> Event.time e \<noteq> None"
    using agenda_sorted[OF that, of "activeAppointments appointmentsList"]
    unfolding agendaForDate_def by blast
  have partial: "(\<forall>i \<in> set agenda. item_date i = d)
        \<and> mset (filter (\<lambda>i. item_status i \<noteq> ''cancelled'') agenda)
            = mset (map EventItem
                     (filter (\<lambda>e. Event.date e = d \<and> Event.status e \<noteq> ''cancelled'') eventsList))
              + mset (map AppointmentItem
                     (filter (\<lambda>a. Appointment.date a = d \<and> Appointment.status a \<noteq> ''cancelled'')
                        appointmentsList))
        \<and> (\<forall>a. AppointmentItem a \<in> set agenda \<longrightarrow> Appointment.status a \<noteq> ''cancelled'')"
    if ret: "agendaForDate eventsList appointmentsList d = Inr agenda" for agenda
  proof -
    from ret have u: "updateSelectedDateEvents eventsList (activeAppointments appointmentsList) d
        = Inr agenda"
      by (simp add: agendaForDate_def)
    have items: "set agenda = EventItem ` {e \<in> set eventsList. Event.date e = d}
           \<union> AppointmentItem ` {a \<in> set (activeAppointments appointmentsList). Appointment.date a = d}"
      by (rule agenda_items[OF u])
    have dates: "\<forall>i \<in> set agenda. item_date i = d"
      unfolding items by auto
    have active: "\<forall>a. AppointmentItem a \<in> set agenda \<longrightarrow> Appointment.status a \<noteq> ''cancelled''"
      unfolding items by (auto simp: activeAppointments_def)
    have "mset (filter (\<lambda>i. item_status i \<noteq> ''cancelled'') agenda)
        = filter_mset (\<lambda>i. item_status i \<noteq> ''cancelled'') (mset agenda)"
      by simp
    also have "\<dots> = mset (filter (\<lambda>i. item_status i \<noteq> ''cancelled'')
                        (map EventItem (filter (\<lambda>event. Event.date event = d) eventsList)))
                   + mset (filter (\<lambda>i. item_status i \<noteq> ''cancelled'')
                        (map AppointmentItem (filter (\<lambda>apt. Appointment.date apt = d)
                           (activeAppointments appointmentsList))))"
      unfolding agenda_mset[OF u] by simp
    finally have counts: "mset (filter (\<lambda>i. item_status i \<noteq> ''cancelled'') agenda)
            = mset (map EventItem
                     (filter (\<lambda>e. Event.date e = d \<and> Event.status e \<noteq> ''cancelled'') eventsList))
              + mset (map AppointmentItem
                     (filter (\<lambda>a. Appointment.date a = d \<and> Appointment.status a \<noteq> ''cancelled'')
                        appointmentsList))"
      unfolding noncancelled_events noncancelled_appointments .
    from dates counts active show ?thesis by blast
  qed
  from total partial show ?thesis by blast
qed

theorem agenda_contents_witness:
  "agendaForDate [standup, lunch, picnic] [followup, cancelledVisit, checkup] ''2024-06-01''
     = Inr [EventItem picnic, AppointmentItem checkup, EventItem lunch]
   \<and> item_date (EventItem picnic) = ''2024-06-01''
   \<and> item_status (AppointmentItem checkup) \<noteq> ''cancelled''
   \<and> Appointment.status cancelledVisit = ''cancelled''
   \<and> Appointment.date cancelledVisit = ''2024-06-01''"
proof -
  have e: "agendaForDate [standup, lunch, picnic] [followup, cancelledVisit, checkup] ''2024-06-01''
     = Inr [EventItem picnic, AppointmentItem checkup, EventItem lunch]"
    by (simp add: agendaForDate_def updateSelectedDateEvents_def activeAppointments_def
        compareItems_def localeCompare_def
        standup_def lunch_def picnic_def followup_def cancelledVisit_def checkup_def)
  have r: "item_date (EventItem picnic) = ''2024-06-01''"
    "item_status (AppointmentItem checkup) \<noteq> ''cancelled''"
    "Appointment.status cancelledVisit = ''cancelled''"
    "Appointment.date cancelledVisit = ''2024-06-01''"
    by (simp_all add: picnic_def checkup_def cancelledVisit_def)
  show ?thesis
    using agenda_contents [of "[standup, lunch, picnic]" "''2024-06-01''"
        "[followup, cancelledVisit, checkup]"] e r
    by (intro conjI) assumption+
qed

text \<open>
  A cancelled event is a different matter from a cancelled appointment: the marker map
  leaves it out, the agenda of its date still lists it.
\<close>

lemma cancelled_event_still_listed:
  "Event.status cancelledParty = ''cancelled''
   \<and> agendaForDate [cancelledParty] [] ''2024-06-01'' = Inr [EventItem cancelledParty]
   \<and> dotsOn (markersForMonth sampleColors ''#007AFF'' (\<lambda>s. s) ''2024-06-10'' [cancelledParty] [])
        ''2024-06-01'' = []"
  by (simp add: agendaForDate_def updateSelectedDateEvents_def activeAppointments_def
      markersForMonth_def updateMarkedDates_def markEvent_def dotsOn_def cancelledParty_def)

text \<open>
  On entries whose times are persisted \<^verbatim>\<open>HH:mm\<close> strings, the order of the strings is
  the order of the times of day.
\<close>

lemma string_order_imp_time_order:
  assumes "hasHHmm a" "hasHHmm b" "agendaOrderByString a b"
  shows "agendaOrder a b"
proof (cases "item_isAllDay a \<or> item_isAllDay b")
  case True
  with assms(3) show ?thesis by (auto simp: agendaOrderByString_def agendaOrder_def)
next
  case False
  with assms(1,2) obtain ta tb where t: "item_time a = Some ta" "item_time b = Some tb"
    "isHHmm ta" "isHHmm tb"
    by (auto simp: hasHHmm_def split: option.splits)
  from assms(3) False t have le: "ta \<le> tb"
    by (simp add: agendaOrderByString_def timeLe_def)
  then have tle: "timeOfDay ta \<le> timeOfDay tb" using isHHmm_le[OF t(3,4)] by simp
  have tie: "\<not> (item_isAppointment a \<and> \<not> item_isAppointment b)"
    if "timeOfDay ta = timeOfDay tb"
  proof -
    have "ta = tb" using isHHmm_eq[OF t(3,4) that] .
    with assms(3) False t show ?thesis by (simp add: agendaOrderByString_def)
  qed
  show ?thesis using False t tle tie by (simp add: agendaOrder_def)
qed

text \<open>
  C4. When the times on the queried date are persisted \<^verbatim>\<open>HH:mm\<close> strings (every event
  of that date that is not all-day has one, and so has every non-cancelled appointment
  of that date), the agenda exists and is ordered: all-day entries come first, timed
  entries follow in ascending time of day, and of two entries with the same time of day
  (or both all-day) an appointment never stands above an event.
\<close>

theorem agenda_order:
  assumes "\<forall>e \<in> set eventsList. Event.date e = d \<and> \<not> isAllDay e \<longrightarrow>
             (case Event.time e of None \<Rightarrow> False | Some s \<Rightarrow> isHHmm s)"
    and "\<forall>a \<in> set appointmentsList.
             Appointment.date a = d \<and> Appointment.status a \<noteq> ''cancelled''
             \<longrightarrow> isHHmm (Appointment.time a)"
  shows "\<exists>agenda. agendaForDate eventsList appointmentsList d = Inr agenda
           \<and> sorted_wrt agendaOrder agenda"
proof -
  have wf: "\<forall>e \<in> set eventsList. Event.date e = d \<and> \<not> isAllDay e \<longrightarrow> Event.time e \<noteq> None"
    using assms(1) by (auto split: option.splits)
  obtain agenda
    where a: "updateSelectedDateEvents eventsList (activeAppointments appointmentsList) d = Inr agenda"
    and s: "sorted_wrt agendaOrderByString agenda"
    using agenda_sorted[OF wf, of "activeAppointments appointmentsList"] by blast
  have items: "set agenda = EventItem ` {e \<in> set eventsList. Event.date e = d}
      \<union> AppointmentItem ` {a \<in> set (activeAppointments appointmentsList). Appointment.date a = d}"
    by (rule agenda_items[OF a])
  have hh: "\<forall>i \<in> set agenda. hasHHmm i"
    unfolding items using assms by (auto simp: hasHHmm_def activeAppointments_def)
  have "sorted_wrt agendaOrder agenda"
    using s hh
    by (rule_tac sorted_wrt_mono_rel[where P = agendaOrderByString])
       (auto intro: string_order_imp_time_order)
  with a show ?thesis by (auto simp: agendaForDate_def)
qed

theorem agenda_order_witness:
  "agendaForDate [picnic] [checkup] ''2024-06-01''
       = Inr [EventItem picnic, AppointmentItem checkup]
   \<and> agendaForDate [lunch, briefing, standup, picnic, jog] [followup, checkup] ''2024-06-01''
       = Inr [EventItem picnic, EventItem jog, EventItem briefing, AppointmentItem checkup,
              EventItem lunch]
   \<and> isAllDay picnic
   \<and> Event.time jog = Some ''07:15'' \<and> timeOfDay ''07:15'' = 435
   \<and> Event.time briefing = Some ''09:00'' \<and> Appointment.time checkup = ''09:00''
   \<and> timeOfDay ''09:00'' = 540
   \<and> Event.time lunch = Some ''12:30'' \<and> timeOfDay ''12:30'' = 750"
proof -
  have h1: "\<forall>e \<in> set [lunch, briefing, standup, picnic, jog].
             Event.date e = ''2024-06-01'' \<and> \<not> isAllDay e \<longrightarrow>
             (case Event.time e of None \<Rightarrow> False | Some s \<Rightarrow> isHHmm s)"
    by (simp add: lunch_def briefing_def standup_def picnic_def jog_def
        isHHmm_def isDigit_def digitValue_def less_eq_char_def)
  have h2: "\<forall>a \<in> set [followup, checkup].
             Appointment.date a = ''2024-06-01'' \<and> Appointment.status a \<noteq> ''cancelled''
             \<longrightarrow> isHHmm (Appointment.time a)"
    by (simp add: followup_def checkup_def isHHmm_def isDigit_def digitValue_def less_eq_char_def)
  have e1: "agendaForDate [picnic] [checkup] ''2024-06-01''
       = Inr [EventItem picnic, AppointmentItem checkup]"
    by (simp add: agendaForDate_def updateSelectedDateEvents_def activeAppointments_def
        compareItems_def localeCompare_def picnic_def checkup_def)
  have e2: "agendaForDate [lunch, briefing, standup, picnic, jog] [followup, checkup] ''2024-06-01''
       = Inr [EventItem picnic, EventItem jog, EventItem briefing, AppointmentItem checkup,
              EventItem lunch]"
    by (simp add: agendaForDate_def updateSelectedDateEvents_def activeAppointments_def
        compareItems_def localeCompare_def lunch_def briefing_def standup_def picnic_def jog_def
        followup_def checkup_def)
  have o: "isAllDay picnic" "Event.time jog = Some ''07:15''" "timeOfDay ''07:15'' = 435"
    "Event.time briefing = Some ''09:00''" "Appointment.time checkup = ''09:00''"
    "timeOfDay ''09:00'' = 540"
    "Event.time lunch = Some ''12:30''" "timeOfDay ''12:30'' = 750"
    by (simp_all add: briefing_def picnic_def checkup_def lunch_def jog_def
        timeOfDay_def digitValue_def)
  show ?thesis
    using agenda_order [OF h1 h2] e1 e2 o
    by (intro conjI) assumption+
qed

end
